theory Spec2Isabelle
  imports Main "HOL-Library.Word" "HOL-Library.AList"
begin

section \<open>Data model\<close>

text \<open>
  The content subresource of the File API: package \<open>file\<close> (content handler, strategy),
  package \<open>cdn\<close> (types) and package \<open>validation\<close>.  Go's \<open>[]byte\<close> is a list of
  8-bit words, Go's \<open>string\<close> a list of bytes (\<open>char\<close>).
\<close>

type_synonym bytes = "8 word list"

text \<open>\<open>metav1.TypeMeta\<close> and \<open>metav1.ObjectMeta\<close>, embedded in \<open>cdn.File\<close>.\<close>

record TypeMeta =
  Kind :: string
  APIVersion :: string

record ObjectMeta =
  Name :: string
  GenerateName :: string
  Namespace :: string
  SelfLink :: string
  UID :: string
  ResourceVersion :: string
  Generation :: int
  CreationTimestamp :: "int option"
  DeletionTimestamp :: "int option"
  DeletionGracePeriodSeconds :: "int option"
  Labels :: "string \<rightharpoonup> string"
  Annotations :: "string \<rightharpoonup> string"
  OwnerReferences :: "string list"
  Finalizers :: "string list"
  ManagedFields :: "string list"

text \<open>
  \<open>cdn.FileSpec\<close>, \<open>cdn.FileStatus\<close>, \<open>cdn.File\<close> (types.go).  \<open>Size\<close> is an
  \<open>int64\<close>; the handler only ever stores \<open>int64(len(contentBytes))\<close> in it, the length
  of a slice held in memory, which never leaves the range of \<open>int64\<close>, so the field is
  an \<open>int\<close> here.
\<close>

record FileSpec =
  URL :: string
  Size :: int
  ContentType :: string
  ResourceLocation :: string

record FileStatus =
  Uploaded :: bool
  Error :: string

record File =
  TypeMeta :: TypeMeta
  ObjectMeta :: ObjectMeta
  Spec :: FileSpec
  Status :: FileStatus

text \<open>\<open>metav1.Status\<close> with its \<open>metav1.StatusDetails\<close>, as far as the handler fills them.\<close>

record StatusDetails =
  details_Name :: string
  details_Kind :: string

record metav1_Status =
  status_Status :: string
  status_Message :: string
  status_Details :: "StatusDetails option"
  status_Code :: nat

text \<open>\<open>cdn.FileContent\<close>: the content subresource object.\<close>

record FileContent =
  content_TypeMeta :: TypeMeta
  content_Status :: metav1_Status

text \<open>\<open>contentEntry\<close> and the process-wide \<open>contentStore\<close> (its \<open>entries\<close> map).\<close>

record contentEntry =
  data :: bytes
  status :: metav1_Status

type_synonym contentStore = "string \<rightharpoonup> contentEntry"

text \<open>
  An error returned by the object store (\<open>registry.REST\<close>): all the handler asks of it
  is \<open>apierrors.IsNotFound(err)\<close> and its text (\<open>%v\<close>).
\<close>

record storeError =
  notFound :: bool
  msg :: string

text \<open>What \<open>store.Get\<close> hands back is a \<open>runtime.Object\<close>; the handler type-asserts it.\<close>

datatype object = FileObject File | OtherObject

text \<open>The errors the handler passes to \<open>h.responder.Error\<close>.\<close>

datatype responderError =
    Propagated storeError
  | NewNotFound string string
  | Errorf string

text \<open>
  The one response a handler call produces: \<open>http.Error(w, msg, code)\<close>,
  \<open>h.responder.Error(err)\<close>, \<open>h.responder.Object(code, obj)\<close>, or headers, status
  code and body written to \<open>w\<close> directly.
\<close>

datatype response =
    HttpError string nat
  | ResponderError responderError
  | ResponderObject nat FileContent
  | Written "string \<rightharpoonup> string" nat bytes

text \<open>
  \<open>http.Request\<close> as far as the handler reads it.  \<open>Body\<close> is what \<open>io.Copy\<close> gets out
  of \<open>req.Body\<close>: all the bytes, or a read error (its text).
\<close>

datatype ConnectionState = ConnectionState

record request =
  Method :: string
  Host :: string
  TLS :: "ConnectionState option"
  Header :: "string \<rightharpoonup> string list"
  Body :: "string + bytes"

text \<open>The request context: \<open>request.NamespaceValue\<close> reads the namespace out of it.\<close>

record requestContext =
  namespace :: "string option"

text \<open>\<open>contentHandler\<close>: what \<open>Connect\<close> binds to one resource name.\<close>

record contentHandler =
  ctx :: requestContext
  name :: string
  externalHost :: string

text \<open>
  What the handler calls and this repository's sources do not hold:
  \<^item> \<open>GroupName\<close>, \<open>Version\<close>: the constants \<open>cdnv1alpha1.GroupName\<close> and
    \<open>cdnv1alpha1.SchemeGroupVersion.Version\<close> (register.go is not among the sources);
  \<^item> \<open>ParseMediaType\<close>: Go's \<open>mime.ParseMediaType\<close>, returning the media type, the
    parameters and the error (its text) if any;
  \<^item> \<open>Quote\<close>: the \<open>%q\<close> verb of \<open>fmt.Sprintf\<close>;
  \<^item> \<open>store_Get\<close>, \<open>store_Create\<close>, \<open>store_Update\<close>: the object store
    \<open>registry.REST\<close> over a state \<open>'os\<close>, in the namespace of the request context.
\<close>

record 'os env =
  GroupName :: string
  Version :: string
  ParseMediaType :: "string \<Rightarrow> string \<times> (string \<rightharpoonup> string) \<times> string option"
  Quote :: "string \<Rightarrow> string"
  store_Get :: "'os \<Rightarrow> string \<Rightarrow> storeError + object"
  store_Create :: "'os \<Rightarrow> File \<Rightarrow> storeError + 'os"
  store_Update :: "'os \<Rightarrow> string \<Rightarrow> File \<Rightarrow> storeError + 'os"

text \<open>
  The calls a handler makes on the two stores, in the order it makes them: the trace of
  one request.
\<close>

datatype effect =
    CallGet string
  | CallCreate File
  | CallUpdate string File
  | PutEntry string contentEntry

record 'os outcome =
  response :: response
  objects :: 'os
  contents :: contentStore
  calls :: "effect list"

section \<open>MIME type validation\<close>

text \<open>\<open>allowedMIMETypes\<close>: a \<open>map[string]bool\<close>; a missing key reads as \<open>false\<close>.\<close>

definition allowedMIMETypes :: "string \<rightharpoonup> bool" where
  "allowedMIMETypes = map_of
     [(''application'', True), (''audio'', True), (''font'', True), (''image'', True),
      (''message'', True), (''model'', True), (''multipart'', True), (''text'', True),
      (''video'', True)]"

definition lookupBool :: "(string \<rightharpoonup> bool) \<Rightarrow> string \<Rightarrow> bool" where
  "lookupBool m k = (case m k of None \<Rightarrow> False | Some b \<Rightarrow> b)"

text \<open>\<open>strings.SplitN(s, sep, 2)\<close> for a separator of one byte.\<close>

definition SplitN2 :: "string \<Rightarrow> char \<Rightarrow> string list" where
  "SplitN2 s sep =
     (if sep \<in> set s
      then [takeWhile (\<lambda>c. c \<noteq> sep) s, tl (dropWhile (\<lambda>c. c \<noteq> sep) s)]
      else [s])"

definition isValidMIMEType :: "string \<Rightarrow> bool" where
  "isValidMIMEType mediaType =
     (let parts = SplitN2 mediaType (CHR ''/'') in
      if length parts \<noteq> 2 then False
      else
        let topLevel = parts ! 0; subType = parts ! 1 in
        if \<not> lookupBool allowedMIMETypes topLevel then False
        else if subType = [] then False
        else True)"

section \<open>The content handler\<close>

definition NamespaceValue :: "requestContext \<Rightarrow> string" where
  "NamespaceValue c = (case namespace c of None \<Rightarrow> [] | Some ns \<Rightarrow> ns)"

definition buildContentURL :: "'os env \<Rightarrow> contentHandler \<Rightarrow> request \<Rightarrow> string" where
  "buildContentURL e h req =
     (let namespace = NamespaceValue (ctx h);
          host = externalHost h;
          host = (if host = [] then Host req else host);
          scheme = ''https'';
          scheme = (if TLS req = None then ''http'' else scheme);
          path = ''/apis/'' @ GroupName e @ ''/'' @ Version e @ ''/namespaces/'' @ namespace
                 @ ''/files/'' @ name h @ ''/content''
      in scheme @ ''://'' @ host @ path)"

text \<open>\<open>req.Header.Get(key)\<close>: the first value under the key, or the empty string.\<close>

definition Header_Get :: "(string \<rightharpoonup> string list) \<Rightarrow> string \<Rightarrow> string" where
  "Header_Get hdr k = (case hdr k of None \<Rightarrow> [] | Some [] \<Rightarrow> [] | Some (v # _) \<Rightarrow> v)"

text \<open>The \<open>%d\<close> verb of \<open>fmt.Sprintf\<close>.\<close>

definition digit :: "nat \<Rightarrow> char" where
  "digit n = (''0123456789'') ! n"

fun decimal :: "nat \<Rightarrow> string" where
  "decimal n = (if n < 10 then [digit n] else decimal (n div 10) @ [digit (n mod 10)])"

declare decimal.simps [simp del]

text \<open>Reading a decimal numeral back: the number a \<open>Content-Length\<close> value stands for.\<close>

definition digitValue :: "char \<Rightarrow> nat" where
  "digitValue c =
     (case map_of (zip ''0123456789'' [0, 1, 2, 3, 4, 5, 6, 7, 8, 9]) c of
        Some d \<Rightarrow> d | None \<Rightarrow> 0)"

definition readDecimal :: "string \<Rightarrow> nat" where
  "readDecimal s = foldl (\<lambda>acc c. 10 * acc + digitValue c) 0 s"

definition Sprintf_d :: "int \<Rightarrow> string" where
  "Sprintf_d i = (if i < 0 then CHR ''-'' # decimal (nat (- i)) else decimal (nat i))"

definition IsNotFound :: "storeError \<Rightarrow> bool" where
  "IsNotFound err = notFound err"

text \<open>Constants of \<open>net/http\<close> and \<open>metav1\<close>.\<close>

abbreviation StatusOK :: nat where "StatusOK \<equiv> 200"
abbreviation StatusCreated :: nat where "StatusCreated \<equiv> 201"
abbreviation StatusBadRequest :: nat where "StatusBadRequest \<equiv> 400"
abbreviation StatusMethodNotAllowed :: nat where "StatusMethodNotAllowed \<equiv> 405"
abbreviation StatusInternalServerError :: nat where "StatusInternalServerError \<equiv> 500"
abbreviation StatusSuccess :: string where "StatusSuccess \<equiv> ''Success''"

text \<open>The zero values of the embedded structs.\<close>

definition zeroTypeMeta :: TypeMeta where
  "zeroTypeMeta = \<lparr>Kind = [], APIVersion = []\<rparr>"

definition zeroObjectMeta :: ObjectMeta where
  "zeroObjectMeta =
     \<lparr>Name = [], GenerateName = [], Namespace = [], SelfLink = [], UID = [],
      ResourceVersion = [], Generation = 0, CreationTimestamp = None,
      DeletionTimestamp = None, DeletionGracePeriodSeconds = None, Labels = Map.empty,
      Annotations = Map.empty, OwnerReferences = [], Finalizers = [], ManagedFields = []\<rparr>"

text \<open>
  The end of \<open>handlePut\<close>, reached from both branches of the upsert: build the status,
  store content and status under the name, answer with the status.  \<open>os\<close> is the object
  store after the upsert, \<open>tr\<close> the calls made so far.
\<close>

definition uploadStatus :: "contentHandler \<Rightarrow> int \<Rightarrow> string \<Rightarrow> metav1_Status" where
  "uploadStatus h contentSize contentType =
     \<lparr>status_Status = StatusSuccess,
      status_Message = ''content uploaded successfully for file '' @ name h @ '' (''
        @ Sprintf_d contentSize @ '' bytes, '' @ contentType @ '')'',
      status_Details = Some \<lparr>details_Name = name h, details_Kind = ''File''\<rparr>,
      status_Code = StatusCreated\<rparr>"

definition storeContent ::
  "contentHandler \<Rightarrow> bytes \<Rightarrow> int \<Rightarrow> string \<Rightarrow> 'os \<Rightarrow> contentStore \<Rightarrow> effect list
     \<Rightarrow> 'os outcome" where
  "storeContent h contentBytes contentSize contentType os cs tr =
     (let status = uploadStatus h contentSize contentType;
          entry = \<lparr>data = contentBytes, status = status\<rparr>;
          cs' = cs(name h \<mapsto> entry);
          resp = \<lparr>content_TypeMeta = zeroTypeMeta, content_Status = status\<rparr>
      in \<lparr>response = ResponderObject StatusCreated resp, objects = os, contents = cs',
          calls = tr @ [PutEntry (name h) entry]\<rparr>)"

text \<open>
  \<open>handlePut\<close>.  Every \<open>return\<close> of the source is one result here; the object store and
  the content store are passed in and handed back.
\<close>

definition handlePut ::
  "'os env \<Rightarrow> contentHandler \<Rightarrow> request \<Rightarrow> 'os \<Rightarrow> contentStore \<Rightarrow> 'os outcome" where
  "handlePut e h req os cs =
     (case Body req of
        Inl err \<Rightarrow>
          \<lparr>response = HttpError (''failed to read request body: '' @ err)
             StatusInternalServerError,
           objects = os, contents = cs, calls = []\<rparr>
      | Inr contentBytes \<Rightarrow>
          let contentSize = int (length contentBytes);
              contentType = Header_Get (Header req) ''Content-Type'';
              contentType = (if contentType = [] then ''application/octet-stream''
                             else contentType)
          in
          (case ParseMediaType e contentType of
             (mediaType, params, Some err) \<Rightarrow>
               \<lparr>response = HttpError (''invalid Content-Type: '' @ err) StatusBadRequest,
                objects = os, contents = cs, calls = []\<rparr>
           | (mediaType, params, None) \<Rightarrow>
               if \<not> isValidMIMEType mediaType then
                 \<lparr>response = HttpError (''unsupported Content-Type: '' @ mediaType
                    @ '' (must be a valid MIME type like text/*, application/*, image/*, etc.)'')
                    StatusBadRequest,
                  objects = os, contents = cs, calls = []\<rparr>
               else
                 let contentType = (case params ''charset'' of
                                      Some charset \<Rightarrow> mediaType @ ''; charset='' @ charset
                                    | None \<Rightarrow> mediaType)
                 in
                 (case store_Get e os (name h) of
                    Inl err \<Rightarrow>
                      if \<not> IsNotFound err then
                        \<lparr>response = ResponderError (Propagated err),
                         objects = os, contents = cs, calls = [CallGet (name h)]\<rparr>
                      else
                        let contentURL = buildContentURL e h req;
                            newFile = \<lparr>TypeMeta = zeroTypeMeta,
                                       ObjectMeta = zeroObjectMeta\<lparr>Name := name h\<rparr>,
                                       Spec = \<lparr>URL = contentURL, Size = contentSize,
                                               ContentType = contentType,
                                               ResourceLocation = []\<rparr>,
                                       Status = \<lparr>Uploaded = True, Error = []\<rparr>\<rparr>
                        in
                        (case store_Create e os newFile of
                           Inl err \<Rightarrow>
                             \<lparr>response = HttpError (''failed to create file resource: ''
                                @ msg err) StatusInternalServerError,
                              objects = os, contents = cs,
                              calls = [CallGet (name h), CallCreate newFile]\<rparr>
                         | Inr os' \<Rightarrow>
                             storeContent h contentBytes contentSize contentType os' cs
                               [CallGet (name h), CallCreate newFile])
                  | Inr obj \<Rightarrow>
                      (case obj of
                         OtherObject \<Rightarrow>
                           \<lparr>response = ResponderError (Errorf ''object is not a File''),
                            objects = os, contents = cs, calls = [CallGet (name h)]\<rparr>
                       | FileObject file \<Rightarrow>
                           let contentURL = buildContentURL e h req;
                               file = file\<lparr>Spec := (Spec file)\<lparr>URL := contentURL\<rparr>\<rparr>;
                               file = file\<lparr>Spec := (Spec file)\<lparr>Size := contentSize\<rparr>\<rparr>;
                               file = file\<lparr>Spec := (Spec file)\<lparr>ContentType := contentType\<rparr>\<rparr>;
                               file = file\<lparr>Status := (Status file)\<lparr>Uploaded := True\<rparr>\<rparr>;
                               file = file\<lparr>Status := (Status file)\<lparr>Error := []\<rparr>\<rparr>
                           in
                           (case store_Update e os (name h) file of
                              Inl err \<Rightarrow>
                                \<lparr>response = HttpError (''failed to update file resource: ''
                                   @ msg err) StatusInternalServerError,
                                 objects = os, contents = cs,
                                 calls = [CallGet (name h), CallUpdate (name h) file]\<rparr>
                            | Inr os' \<Rightarrow>
                                storeContent h contentBytes contentSize contentType os' cs
                                  [CallGet (name h), CallUpdate (name h) file])))))"

text \<open>\<open>handleGet\<close>: GET, or HEAD when \<open>headOnly\<close>.\<close>

definition handleGet ::
  "'os env \<Rightarrow> contentHandler \<Rightarrow> request \<Rightarrow> bool \<Rightarrow> 'os \<Rightarrow> contentStore \<Rightarrow> 'os outcome" where
  "handleGet e h req headOnly os cs =
     (case store_Get e os (name h) of
        Inl err \<Rightarrow>
          \<lparr>response = ResponderError (Propagated err),
           objects = os, contents = cs, calls = [CallGet (name h)]\<rparr>
      | Inr obj \<Rightarrow>
          (case obj of
             OtherObject \<Rightarrow>
               \<lparr>response = ResponderError (Errorf ''object is not a File''),
                objects = os, contents = cs, calls = [CallGet (name h)]\<rparr>
           | FileObject file \<Rightarrow>
               (case cs (name h) of
                  Some entry \<Rightarrow>
                    let contentType = ContentType (Spec file);
                        contentType = (if contentType = [] then ''application/octet-stream''
                                       else contentType);
                        hdrs = Map.empty(''Content-Type'' \<mapsto> contentType);
                        hdrs = hdrs(''Content-Length'' \<mapsto> Sprintf_d (int (length (data entry))));
                        hdrs = hdrs(''Content-Disposition'' \<mapsto>
                                 ''attachment; filename='' @ Quote e (name h))
                    in
                    \<lparr>response = Written hdrs StatusOK (if \<not> headOnly then data entry else []),
                     objects = os, contents = cs, calls = [CallGet (name h)]\<rparr>
                | None \<Rightarrow>
                    \<lparr>response = ResponderError (NewNotFound ''file'' (name h)),
                     objects = os, contents = cs, calls = [CallGet (name h)]\<rparr>)))"

text \<open>\<open>ServeHTTP\<close>: the dispatch on the method.\<close>

definition ServeHTTP ::
  "'os env \<Rightarrow> contentHandler \<Rightarrow> request \<Rightarrow> 'os \<Rightarrow> contentStore \<Rightarrow> 'os outcome" where
  "ServeHTTP e h req os cs =
     (if Method req = ''GET'' then handleGet e h req False os cs
      else if Method req = ''HEAD'' then handleGet e h req True os cs
      else if Method req = ''PUT'' then handlePut e h req os cs
      else \<lparr>response = HttpError (''method '' @ Method req @ '' not allowed'')
              StatusMethodNotAllowed,
            objects = os, contents = cs, calls = []\<rparr>)"

section \<open>Go's \<open>mime.ParseMediaType\<close>\<close>

text \<open>
  \<open>handlePut\<close> parses the declared content type with \<open>mime.ParseMediaType\<close> of Go's
  standard library (mime/mediatype.go; Dockerfile.dev builds with Go 1.25).  The handler
  above takes the parser as a parameter; this section is the parser itself, function by
  function, for the runs on concrete headers.  Strings are byte lists here, and the
  three places where Go works on Unicode code points (\<open>strings.ToLower\<close>,
  \<open>strings.TrimSpace\<close>, \<open>unicode.IsSpace\<close>) are given on ASCII: the model is Go's
  function on headers made of ASCII bytes.
\<close>

text \<open>
  \<open>isTSpecial\<close>, \<open>isTokenChar\<close> (grammar.go): a token byte is a printable ASCII byte
  other than the space and the tspecials \<open>( ) < > @ , ; :\<close> backslash, double quote,
  \<open>/ [ ] ? =\<close>.  \<open>consumeToken\<close> splits at the first byte that is no token byte (a byte
  of a multi-byte code point is none).
\<close>

definition isTSpecial :: "char \<Rightarrow> bool" where
  "isTSpecial c = (c \<in> set (''()<>@,;:'' @ [CHR 0x5C, CHR 0x22] @ ''/[]?=''))"

definition isTokenChar :: "char \<Rightarrow> bool" where
  "isTokenChar c = ((0x20::nat) < of_char c \<and> of_char c < (0x7f::nat) \<and> \<not> isTSpecial c)"

definition consumeToken :: "string \<Rightarrow> string \<times> string" where
  "consumeToken v = (takeWhile isTokenChar v, dropWhile isTokenChar v)"

text \<open>
  White space (\<open>unicode.IsSpace\<close> on ASCII: tab, line feed, vertical tab, form feed,
  carriage return, space), \<open>strings.TrimLeftFunc(s, unicode.IsSpace)\<close>,
  \<open>strings.TrimSpace\<close> and \<open>strings.ToLower\<close> (on ASCII: \<open>A\<close>..\<open>Z\<close> to \<open>a\<close>..\<open>z\<close>).
\<close>

definition isSpace :: "char \<Rightarrow> bool" where
  "isSpace c = (c \<in> set [CHR 0x09, CHR 0x0A, CHR 0x0B, CHR 0x0C, CHR 0x0D, CHR 0x20])"

definition TrimLeftSpace :: "string \<Rightarrow> string" where
  "TrimLeftSpace s = dropWhile isSpace s"

definition TrimSpace :: "string \<Rightarrow> string" where
  "TrimSpace s = rev (dropWhile isSpace (rev (dropWhile isSpace s)))"

definition toLowerByte :: "char \<Rightarrow> char" where
  "toLowerByte c =
     (case map_of (zip ''ABCDEFGHIJKLMNOPQRSTUVWXYZ'' ''abcdefghijklmnopqrstuvwxyz'') c of
        Some l \<Rightarrow> l | None \<Rightarrow> c)"

definition ToLower :: "string \<Rightarrow> string" where
  "ToLower s = map toLowerByte s"

text \<open>\<open>strings.HasPrefix(s, p)\<close> for a prefix of one byte.\<close>

definition HasPrefix1 :: "string \<Rightarrow> char \<Rightarrow> bool" where
  "HasPrefix1 s c = (case s of [] \<Rightarrow> False | x # _ \<Rightarrow> x = c)"

text \<open>
  \<open>checkMediaTypeDisposition\<close>: the media type is a token, alone (as the value of a
  Content-Disposition header is: \<open>attachment\<close>) or followed by a slash and a second
  token and nothing else.  The result is the error, if any.
\<close>

definition checkMediaTypeDisposition :: "string \<Rightarrow> string option" where
  "checkMediaTypeDisposition s =
     (let (typ, rest) = consumeToken s in
      if typ = [] then Some ''mime: no media type''
      else if rest = [] then None
      else if \<not> HasPrefix1 rest (CHR ''/'') then Some ''mime: expected slash after first token''
      else
        let (subtype, rest) = consumeToken (tl rest) in
        if subtype = [] then Some ''mime: expected token after slash''
        else if rest \<noteq> [] then Some ''mime: unexpected content after media subtype''
        else None)"

text \<open>
  \<open>consumeValue\<close>: a token, or a quoted string (\<open>consumeQuoted\<close> is its loop over the
  bytes after the opening quote: the bytes left, the buffer, and the whole of \<open>v\<close> to
  hand back on failure).  A backslash before a tspecial escapes it; a line break or a
  missing end quote fails with \<open>("", v)\<close>.
\<close>

fun consumeQuoted :: "string \<Rightarrow> string \<Rightarrow> string \<Rightarrow> string \<times> string" where
  "consumeQuoted [] buffer v = ([], v)"
| "consumeQuoted [r] buffer v = (if r = CHR 0x22 then (buffer, []) else ([], v))"
| "consumeQuoted (r # r' # rs) buffer v =
     (if r = CHR 0x22 then (buffer, r' # rs)
      else if r = CHR 0x5C \<and> isTSpecial r' then consumeQuoted rs (buffer @ [r']) v
      else if r = CHR 0x0D \<or> r = CHR 0x0A then ([], v)
      else consumeQuoted (r' # rs) (buffer @ [r]) v)"

definition consumeValue :: "string \<Rightarrow> string \<times> string" where
  "consumeValue v =
     (if v = [] then ([], [])
      else if hd v \<noteq> CHR 0x22 then consumeToken v
      else consumeQuoted (tl v) [] v)"

text \<open>\<open>consumeMediaParam\<close>: one \<open>; name=value\<close>; \<open>("", "", v)\<close> when there is none.\<close>

definition consumeMediaParam :: "string \<Rightarrow> string \<times> string \<times> string" where
  "consumeMediaParam v =
     (let rest = TrimLeftSpace v in
      if \<not> HasPrefix1 rest (CHR '';'') then ([], [], v)
      else
        let rest = tl rest;
            rest = TrimLeftSpace rest;
            (param, rest) = consumeToken rest;
            param = ToLower param
        in
        if param = [] then ([], [], v)
        else
          let rest = TrimLeftSpace rest in
          if \<not> HasPrefix1 rest (CHR ''='') then ([], [], v)
          else
            let rest = tl rest;
                rest = TrimLeftSpace rest;
                (val, rest2) = consumeValue rest
            in
            if val = [] \<and> rest2 = rest then ([], [], v)
            else (param, val, rest2))"

text \<open>
  The parameter loop of \<open>ParseMediaType\<close>.  \<open>params\<close> and \<open>continuation\<close> are Go maps,
  here association lists with one pair for each key.  A parameter whose name holds a
  \<open>*\<close> (RFC 2231) goes to the map \<open>continuation[baseName]\<close>, every other one to
  \<open>params\<close>; a name seen twice with two values is an error.
\<close>

datatype paramsResult =
    Params "(string \<times> string) list" "(string \<times> (string \<times> string) list) list"
  | ErrInvalidMediaParameter
  | ErrDuplicateParameter

function parseParams ::
  "string \<Rightarrow> (string \<times> string) list \<Rightarrow> (string \<times> (string \<times> string) list) list
     \<Rightarrow> paramsResult" where
  "parseParams v params continuation =
     (if v = [] then Params params continuation
      else
        let v = TrimLeftSpace v in
        if v = [] then Params params continuation
        else
          (case consumeMediaParam v of (key, val, rest) \<Rightarrow>
            if key = [] then
              (if TrimSpace rest = '';'' then Params params continuation
               else ErrInvalidMediaParameter)
            else
              let star = (CHR ''*'' \<in> set key);
                  baseName = takeWhile (\<lambda>c. c \<noteq> CHR ''*'') key;
                  pmap = (if star
                          then (case map_of continuation baseName of None \<Rightarrow> [] | Some m \<Rightarrow> m)
                          else params)
              in
              if (case map_of pmap key of Some v' \<Rightarrow> v' \<noteq> val | None \<Rightarrow> False)
              then ErrDuplicateParameter
              else
                let pmap = AList.update key val pmap in
                if star then parseParams rest params (AList.update baseName pmap continuation)
                else parseParams rest pmap continuation))"
  by pat_completeness auto
termination
proof -
  have quoted: "length (snd (consumeQuoted rs b v)) \<le> max (length rs) (length v)"
    for rs b v
    by (induction rs b v rule: consumeQuoted.induct) auto
  have val: "length (snd (consumeValue v)) \<le> length v" for v
    using quoted[of "tl v" "[]" v]
    by (auto simp: consumeValue_def consumeToken_def length_dropWhile_le)
  have param: "length rest < length v"
    if eq: "consumeMediaParam v = (key, val, rest)" and key: "key \<noteq> []"
    for v key val rest
  proof -
    define r1 where "r1 = TrimLeftSpace v"
    define r2 where "r2 = TrimLeftSpace (tl r1)"
    define r3 where "r3 = TrimLeftSpace (snd (consumeToken r2))"
    define r4 where "r4 = TrimLeftSpace (tl r3)"
    have p1: "HasPrefix1 r1 (CHR '';'')"
      using eq key
      by (auto simp: consumeMediaParam_def r1_def Let_def split: if_splits prod.splits)
    have p3: "HasPrefix1 r3 (CHR ''='')"
      using eq key p1
      by (auto simp: consumeMediaParam_def r1_def r2_def r3_def Let_def
          split: if_splits prod.splits)
    have rest: "rest = snd (consumeValue r4)"
      using eq key p1 p3
      by (auto simp: consumeMediaParam_def r1_def r2_def r3_def r4_def Let_def
          split: if_splits prod.splits)
    have "length rest \<le> length r4" unfolding rest by (rule val)
    also have "\<dots> \<le> length (tl r3)"
      unfolding r4_def TrimLeftSpace_def by (rule length_dropWhile_le)
    also have "\<dots> \<le> length r3" by simp
    also have "\<dots> \<le> length (snd (consumeToken r2))"
      unfolding r3_def TrimLeftSpace_def by (rule length_dropWhile_le)
    also have "\<dots> \<le> length r2"
      unfolding consumeToken_def snd_conv by (rule length_dropWhile_le)
    also have "\<dots> \<le> length (tl r1)"
      unfolding r2_def TrimLeftSpace_def by (rule length_dropWhile_le)
    also have "\<dots> < length r1" using p1 by (cases r1) (auto simp: HasPrefix1_def)
    also have "\<dots> \<le> length v"
      unfolding r1_def TrimLeftSpace_def by (rule length_dropWhile_le)
    finally show ?thesis .
  qed
  have step: "length rest < length v"
    if "x = TrimLeftSpace v" "(key, y) = consumeMediaParam x" "(val, rest) = y" "key \<noteq> []"
    for v x key y val rest
  proof -
    have "length rest < length x" using that param[of x key val rest] by simp
    also have "\<dots> \<le> length v"
      unfolding that(1) TrimLeftSpace_def by (rule length_dropWhile_le)
    finally show ?thesis .
  qed
  show ?thesis
    by (relation "measure (\<lambda>(v, p, c). length v)") (auto intro: step)
qed

text \<open>\<open>ishex\<close>, \<open>unhex\<close>, \<open>percentHexUnescape\<close> and \<open>decode2231Enc\<close> (\<open>None\<close>: the error).\<close>

definition ishex :: "char \<Rightarrow> bool" where
  "ishex c = (c \<in> set ''0123456789abcdefABCDEF'')"

definition unhex :: "char \<Rightarrow> nat" where
  "unhex c =
     (case map_of (zip ''0123456789abcdefABCDEF''
                       [0, 1, 2, 3, 4, 5, 6, 7, 8, 9, 10, 11, 12, 13, 14, 15, 10, 11, 12, 13, 14, 15]) c of
        Some n \<Rightarrow> n | None \<Rightarrow> 0)"

fun percentHexUnescape :: "string \<Rightarrow> string option" where
  "percentHexUnescape [] = Some []"
| "percentHexUnescape (c # cs) =
     (if c \<noteq> CHR ''%'' then map_option ((#) c) (percentHexUnescape cs)
      else
        (case cs of
           h1 # h2 # rest \<Rightarrow>
             if ishex h1 \<and> ishex h2
             then map_option ((#) (char_of (unhex h1 * 16 + unhex h2))) (percentHexUnescape rest)
             else None
         | _ \<Rightarrow> None))"

definition decode2231Enc :: "string \<Rightarrow> string option" where
  "decode2231Enc v =
     (if length (filter (\<lambda>c. c = CHR 0x27) v) < 2 then None
      else
        let sv0 = takeWhile (\<lambda>c. c \<noteq> CHR 0x27) v;
            after0 = tl (dropWhile (\<lambda>c. c \<noteq> CHR 0x27) v);
            sv2 = tl (dropWhile (\<lambda>c. c \<noteq> CHR 0x27) after0);
            charset = ToLower sv0
        in
        if charset = [] then None
        else if charset \<noteq> ''us-ascii'' \<and> charset \<noteq> ''utf-8'' then None
        else percentHexUnescape sv2)"

text \<open>
  The loop \<open>for n := 0; ; n++\<close> that stitches the pieces \<open>key*0\<close>, \<open>key*1*\<close>, ... of one
  continued parameter, and the loop over \<open>continuation\<close> around it.  The inner loop stops
  at the first \<open>n\<close> with neither piece in \<open>pieceMap\<close>; it ends because every round before
  that found another key of \<open>pieceMap\<close>.
\<close>

function stitch ::
  "(string \<times> string) list \<Rightarrow> string \<Rightarrow> nat \<Rightarrow> bool \<Rightarrow> string \<Rightarrow> bool \<times> string" where
  "stitch pieceMap key n valid buf =
     (let simplePart = key @ ''*'' @ decimal n in
      case map_of pieceMap simplePart of
        Some v \<Rightarrow> stitch pieceMap key (n + 1) True (buf @ v)
      | None \<Rightarrow>
          let encodedPart = simplePart @ ''*'' in
          (case map_of pieceMap encodedPart of
             None \<Rightarrow> (valid, buf)
           | Some v \<Rightarrow>
               if n = 0 then
                 (case decode2231Enc v of
                    Some decv \<Rightarrow> stitch pieceMap key (n + 1) True (buf @ decv)
                  | None \<Rightarrow> stitch pieceMap key (n + 1) True buf)
               else
                 (case percentHexUnescape v of
                    Some decv \<Rightarrow> stitch pieceMap key (n + 1) True (buf @ decv)
                  | None \<Rightarrow> stitch pieceMap key (n + 1) True buf)))"
  by pat_completeness auto
termination
proof -
  have dv: "digitValue (digit d) = d" if "d < 10" for d
  proof -
    from that have "d \<in> {0, 1, 2, 3, 4, 5, 6, 7, 8, 9}" by auto
    then show ?thesis by (auto simp: digitValue_def digit_def)
  qed
  have rd: "readDecimal (decimal m) = m" for m
  proof (induction m rule: decimal.induct)
    case (1 m)
    show ?case
    proof (cases "m < 10")
      case True
      then show ?thesis by (simp add: readDecimal_def dv decimal.simps[of m])
    next
      case False
      then have "decimal m = decimal (m div 10) @ [digit (m mod 10)]"
        by (subst decimal.simps) simp
      moreover have "readDecimal (s @ [c]) = 10 * readDecimal s + digitValue c" for s c
        by (simp add: readDecimal_def)
      ultimately show ?thesis
        using 1 False by (simp add: dv)
    qed
  qed
  have inj1: "inj (\<lambda>m. key @ ''*'' @ decimal m)" for key :: string
  proof (rule injI)
    fix x y assume "key @ ''*'' @ decimal x = key @ ''*'' @ decimal y"
    then have "readDecimal (decimal x) = readDecimal (decimal y)" by simp
    then show "x = y" by (simp only: rd)
  qed
  have inj2: "inj (\<lambda>m. key @ ''*'' @ decimal m @ ''*'')" for key :: string
  proof (rule injI)
    fix x y assume "key @ ''*'' @ decimal x @ ''*'' = key @ ''*'' @ decimal y @ ''*''"
    then have "readDecimal (decimal x) = readDecimal (decimal y)" by simp
    then show "x = y" by (simp only: rd)
  qed
  define pieces where
    "pieces pm key n = {m. n \<le> m \<and> (key @ ''*'' @ decimal m \<in> dom (map_of pm)
        \<or> key @ ''*'' @ decimal m @ ''*'' \<in> dom (map_of pm))}"
    for pm :: "(string \<times> string) list" and key :: string and n :: nat
  have fin: "finite (pieces pm key n)" for pm key n
  proof -
    have "pieces pm key n \<subseteq> (\<lambda>m. key @ ''*'' @ decimal m) -` dom (map_of pm)
        \<union> (\<lambda>m. key @ ''*'' @ decimal m @ ''*'') -` dom (map_of pm)"
      by (auto simp: pieces_def)
    moreover have "finite ((\<lambda>m. key @ ''*'' @ decimal m) -` dom (map_of pm))"
      by (rule finite_vimageI[OF finite_dom_map_of inj1])
    moreover have "finite ((\<lambda>m. key @ ''*'' @ decimal m @ ''*'') -` dom (map_of pm))"
      by (rule finite_vimageI[OF finite_dom_map_of inj2])
    ultimately show ?thesis by (meson finite_UnI finite_subset)
  qed
  have less: "card (pieces pm key (Suc n)) < card (pieces pm key n)"
    if "key @ ''*'' @ decimal n \<in> dom (map_of pm)
        \<or> key @ ''*'' @ decimal n @ ''*'' \<in> dom (map_of pm)" for pm key n
  proof (rule psubset_card_mono[OF fin])
    have "n \<in> pieces pm key n" using that by (simp add: pieces_def)
    moreover have "n \<notin> pieces pm key (Suc n)" by (simp add: pieces_def)
    moreover have "pieces pm key (Suc n) \<subseteq> pieces pm key n" by (auto simp: pieces_def)
    ultimately show "pieces pm key (Suc n) \<subset> pieces pm key n" by blast
  qed
  show ?thesis
    by (relation "measure (\<lambda>(pm, key, n, valid, buf). card (pieces pm key n))")
       (auto intro!: less)
qed

fun stitchAll ::
  "(string \<times> (string \<times> string) list) list \<Rightarrow> (string \<times> string) list
     \<Rightarrow> (string \<times> string) list" where
  "stitchAll [] params = params"
| "stitchAll ((key, pieceMap) # continuation) params =
     (let singlePartKey = key @ ''*'' in
      case map_of pieceMap singlePartKey of
        Some v \<Rightarrow>
          (case decode2231Enc v of
             Some decv \<Rightarrow> stitchAll continuation (AList.update key decv params)
           | None \<Rightarrow> stitchAll continuation params)
      | None \<Rightarrow>
          (case stitch pieceMap key 0 False [] of
             (valid, buf) \<Rightarrow>
               if valid then stitchAll continuation (AList.update key buf params)
               else stitchAll continuation params))"

text \<open>
  \<open>ParseMediaType\<close>: \<open>parseMediaTypeList\<close> is the function with the parameters as a
  list, \<open>goParseMediaType\<close> hands them over as the map the handler reads.
\<close>

definition parseMediaTypeList ::
  "string \<Rightarrow> string \<times> (string \<times> string) list \<times> string option" where
  "parseMediaTypeList v =
     (let base = takeWhile (\<lambda>c. c \<noteq> CHR '';'') v;
          mediatype = TrimSpace (ToLower base)
      in
      case checkMediaTypeDisposition mediatype of
        Some err \<Rightarrow> ([], [], Some err)
      | None \<Rightarrow>
          (case parseParams (drop (length base) v) [] [] of
             ErrInvalidMediaParameter \<Rightarrow> (mediatype, [], Some ''mime: invalid media parameter'')
           | ErrDuplicateParameter \<Rightarrow> ([], [], Some ''mime: duplicate parameter name'')
           | Params params continuation \<Rightarrow>
               (mediatype, stitchAll continuation params, None)))"

definition goParseMediaType :: "string \<Rightarrow> string \<times> (string \<rightharpoonup> string) \<times> string option" where
  "goParseMediaType v =
     (case parseMediaTypeList v of (mediatype, params, err) \<Rightarrow> (mediatype, map_of params, err))"

section \<open>The strategy of the File resource and an object store for concrete runs\<close>

text \<open>
  \<open>validation.ValidateFileSpec\<close>, \<open>validation.ValidateFile\<close> and the hooks of
  \<open>fileStrategy\<close>; a \<open>field.ErrorList\<close> is a list of messages.
\<close>

definition ValidateFileSpec :: "FileSpec \<Rightarrow> string list" where
  "ValidateFileSpec s = (let allErrs = [] in allErrs)"

definition ValidateFile :: "File \<Rightarrow> string list" where
  "ValidateFile f = (let allErrs = []; allErrs = allErrs @ ValidateFileSpec (Spec f) in allErrs)"

definition PrepareForCreate :: "File \<Rightarrow> File" where
  "PrepareForCreate obj = obj"

definition PrepareForUpdate :: "File \<Rightarrow> File \<Rightarrow> File" where
  "PrepareForUpdate obj old = obj"

definition Validate :: "File \<Rightarrow> string list" where
  "Validate obj = ValidateFile obj"

definition ValidateUpdate :: "File \<Rightarrow> File \<Rightarrow> string list" where
  "ValidateUpdate obj old = ValidateFile obj"

definition Canonicalize :: "File \<Rightarrow> File" where
  "Canonicalize obj = obj"

definition AllowCreateOnUpdate :: bool where
  "AllowCreateOnUpdate = False"

text \<open>
  \<open>registry.REST\<close> wraps the generic registry of the API server library, which is not
  part of this repository.  For runs on concrete requests, \<open>memStore\<close> stands in for it:
  the Files of one namespace by name, each write passed through the strategy hooks
  above in the registry's order (prepare, validate, canonicalize).  The general
  theorems below hold for every object store, not only for this one.
\<close>

type_synonym memStore = "string \<rightharpoonup> File"

definition mem_Get :: "memStore \<Rightarrow> string \<Rightarrow> storeError + object" where
  "mem_Get os n =
     (case os n of
        None \<Rightarrow> Inl \<lparr>notFound = True, msg = ''files '' @ n @ '' not found''\<rparr>
      | Some f \<Rightarrow> Inr (FileObject f))"

definition mem_Create :: "memStore \<Rightarrow> File \<Rightarrow> storeError + memStore" where
  "mem_Create os obj =
     (let obj = PrepareForCreate obj in
      if Validate obj \<noteq> [] then Inl \<lparr>notFound = False, msg = ''File is invalid''\<rparr>
      else
        let obj = Canonicalize obj in
        if os (Name (ObjectMeta obj)) \<noteq> None
        then Inl \<lparr>notFound = False,
                 msg = ''files '' @ Name (ObjectMeta obj) @ '' already exists''\<rparr>
        else Inr (os(Name (ObjectMeta obj) \<mapsto> obj)))"

definition mem_Update :: "memStore \<Rightarrow> string \<Rightarrow> File \<Rightarrow> storeError + memStore" where
  "mem_Update os n obj =
     (case os n of
        None \<Rightarrow>
          if AllowCreateOnUpdate then Inr (os(n \<mapsto> obj))
          else Inl \<lparr>notFound = True, msg = ''files '' @ n @ '' not found''\<rparr>
      | Some old \<Rightarrow>
          let obj = PrepareForUpdate obj old in
          if ValidateUpdate obj old \<noteq> [] then Inl \<lparr>notFound = False, msg = ''File is invalid''\<rparr>
          else Inr (os(n \<mapsto> Canonicalize obj)))"

text \<open>\<open>%q\<close> on a name of printable ASCII with no quote and no backslash in it.\<close>

definition quotePlain :: "string \<Rightarrow> string" where
  "quotePlain s = [CHR 0x22] @ s @ [CHR 0x22]"

text \<open>
  The server as deployed, for the concrete runs: Go's parser, the object store above,
  and the group and version under which the plugin (plugin/kubectl-cdn/main.go,
  \<open>cdnGroupVersion\<close>) reaches the API.
\<close>

definition goEnv :: "memStore env" where
  "goEnv =
     \<lparr>GroupName = ''cdn.k8s.toms.place'', Version = ''v1alpha1'',
      ParseMediaType = goParseMediaType, Quote = quotePlain,
      store_Get = mem_Get, store_Create = mem_Create, store_Update = mem_Update\<rparr>"

text \<open>A handler for the File \<open>report\<close> in the namespace \<open>toms-place\<close>, and a PUT request.\<close>

definition reportHandler :: contentHandler where
  "reportHandler = \<lparr>ctx = \<lparr>namespace = Some ''toms-place''\<rparr>, name = ''report'', externalHost = []\<rparr>"

definition putRequest :: "string \<Rightarrow> bytes \<Rightarrow> request" where
  "putRequest contentType body =
     \<lparr>Method = ''PUT'', Host = ''localhost:8443'', TLS = Some ConnectionState,
      Header = [''Content-Type'' \<mapsto> [contentType]], Body = Inr body\<rparr>"

text \<open>
  A File \<open>report\<close> as an earlier, failed upload may have left it; the server with
  an object store that cannot be reached; and the server with an object store that
  takes no new File.
\<close>

definition oldReport :: File where
  "oldReport =
     \<lparr>TypeMeta = \<lparr>Kind = ''File'', APIVersion = ''cdn.k8s.toms.place/v1alpha1''\<rparr>,
      ObjectMeta = zeroObjectMeta
        \<lparr>Name := ''report'', Namespace := ''toms-place'', UID := ''0a1b'',
         ResourceVersion := ''41'', Labels := [''team'' \<mapsto> ''docs''],
         Annotations := [''note'' \<mapsto> ''quarterly'']\<rparr>,
      Spec = \<lparr>URL = [], Size = 0, ContentType = ''application/pdf'',
              ResourceLocation = ''s3://bucket/report''\<rparr>,
      Status = \<lparr>Uploaded = False, Error = ''upload failed''\<rparr>\<rparr>"

definition downEnv :: "memStore env" where
  "downEnv = goEnv\<lparr>store_Get := \<lambda>os n. Inl \<lparr>notFound = False, msg = ''etcd unavailable''\<rparr>\<rparr>"

definition fullEnv :: "memStore env" where
  "fullEnv = goEnv\<lparr>store_Create := \<lambda>os f. Inl \<lparr>notFound = False, msg = ''no space''\<rparr>\<rparr>"

definition getRequest :: request where
  "getRequest =
     \<lparr>Method = ''GET'', Host = ''localhost:8443'', TLS = Some ConnectionState,
      Header = Map.empty, Body = Inr []\<rparr>"

section \<open>The notions the properties are stated with\<close>

text \<open>
  The content type a PUT declares (step 2 of the PUT: the header, or
  \<open>application/octet-stream\<close> when it is absent), and what the parser makes of it.
\<close>

definition declaredContentType :: "request \<Rightarrow> string" where
  "declaredContentType req =
     (let contentType = Header_Get (Header req) ''Content-Type'' in
      if contentType = [] then ''application/octet-stream'' else contentType)"

definition parsedMediaType :: "'os env \<Rightarrow> request \<Rightarrow> string" where
  "parsedMediaType e req = fst (ParseMediaType e (declaredContentType req))"

definition parsedParams :: "'os env \<Rightarrow> request \<Rightarrow> string \<rightharpoonup> string" where
  "parsedParams e req = fst (snd (ParseMediaType e (declaredContentType req)))"

definition parseError :: "'os env \<Rightarrow> request \<Rightarrow> string option" where
  "parseError e req = snd (snd (ParseMediaType e (declaredContentType req)))"

text \<open>
  The normalized content type, in the words of the specification: the media type, with
  \<open>; charset=value\<close> after it when a charset parameter was present.
\<close>

definition normalizedContentType :: "'os env \<Rightarrow> request \<Rightarrow> string" where
  "normalizedContentType e req =
     (case parsedParams e req ''charset'' of
        Some v \<Rightarrow> parsedMediaType e req @ ''; charset='' @ v
      | None \<Rightarrow> parsedMediaType e req)"

text \<open>
  The acceptance rule in the words of the specification: the top-level category is the
  part before the \<open>/\<close>, the subtype what follows it.
\<close>

definition allowedCategories :: "string list" where
  "allowedCategories =
     [''application'', ''audio'', ''font'', ''image'', ''message'', ''model'', ''multipart'',
      ''text'', ''video'']"

definition topLevelCategory :: "string \<Rightarrow> string" where
  "topLevelCategory mediaType = takeWhile (\<lambda>c. c \<noteq> CHR ''/'') mediaType"

definition subtypeOf :: "string \<Rightarrow> string" where
  "subtypeOf mediaType = drop (Suc (length (topLevelCategory mediaType))) mediaType"

definition acceptedMediaType :: "string \<Rightarrow> bool" where
  "acceptedMediaType mediaType =
     (topLevelCategory mediaType \<in> set allowedCategories \<and> subtypeOf mediaType \<noteq> [])"

text \<open>
  A PUT passes validation (and reaches the lookup of step 7) when its body was read,
  its content type parsed and the media type is valid; \<open>uploadedBytes\<close> is its body.
\<close>

definition uploadedBytes :: "request \<Rightarrow> bytes" where
  "uploadedBytes req = (case Body req of Inl err \<Rightarrow> [] | Inr contentBytes \<Rightarrow> contentBytes)"

definition bodyRead :: "request \<Rightarrow> bool" where
  "bodyRead req = (case Body req of Inl err \<Rightarrow> False | Inr contentBytes \<Rightarrow> True)"

definition passesValidation :: "'os env \<Rightarrow> request \<Rightarrow> bool" where
  "passesValidation e req =
     (bodyRead req \<and> parseError e req = None \<and> isValidMIMEType (parsedMediaType e req))"

text \<open>
  The File a PUT creates when there is none under the name, and the File it submits as
  the update of the File it fetched.
\<close>

definition newFile :: "'os env \<Rightarrow> contentHandler \<Rightarrow> request \<Rightarrow> File" where
  "newFile e h req =
     \<lparr>TypeMeta = zeroTypeMeta, ObjectMeta = zeroObjectMeta\<lparr>Name := name h\<rparr>,
      Spec = \<lparr>URL = buildContentURL e h req, Size = int (length (uploadedBytes req)),
              ContentType = normalizedContentType e req, ResourceLocation = []\<rparr>,
      Status = \<lparr>Uploaded = True, Error = []\<rparr>\<rparr>"

definition updatedFile :: "'os env \<Rightarrow> contentHandler \<Rightarrow> request \<Rightarrow> File \<Rightarrow> File" where
  "updatedFile e h req file =
     file\<lparr>Spec := (Spec file)\<lparr>URL := buildContentURL e h req,
                              Size := int (length (uploadedBytes req)),
                              ContentType := normalizedContentType e req\<rparr>,
          Status := (Status file)\<lparr>Uploaded := True, Error := []\<rparr>\<rparr>"

text \<open>
  A PUT is a client error when its body was read and its content type does not parse or
  is not valid; \<open>clientErrorMessage\<close> is the message of the response then.
\<close>

definition clientError :: "'os env \<Rightarrow> request \<Rightarrow> bool" where
  "clientError e req =
     (bodyRead req \<and> (parseError e req \<noteq> None \<or> \<not> isValidMIMEType (parsedMediaType e req)))"

definition clientErrorMessage :: "'os env \<Rightarrow> request \<Rightarrow> string" where
  "clientErrorMessage e req =
     (case parseError e req of
        Some err \<Rightarrow> ''invalid Content-Type: '' @ err
      | None \<Rightarrow> ''unsupported Content-Type: '' @ parsedMediaType e req
          @ '' (must be a valid MIME type like text/*, application/*, image/*, etc.)'')"

text \<open>Whether a response is the parse failure or the category error of a PUT.\<close>

definition isParseFailure :: "response \<Rightarrow> bool" where
  "isParseFailure r =
     (case r of
        HttpError m c \<Rightarrow> c = StatusBadRequest \<and> take 22 m = ''invalid Content-Type: ''
      | _ \<Rightarrow> False)"

definition isCategoryError :: "response \<Rightarrow> bool" where
  "isCategoryError r =
     (case r of
        HttpError m c \<Rightarrow> c = StatusBadRequest \<and> take 26 m = ''unsupported Content-Type: ''
      | _ \<Rightarrow> False)"

text \<open>
  On the trace of a request: the metadata upserts (create or update), the commits to
  the content store, the Files handed to the object store, and the outcome of an
  upsert call on the object store.
\<close>

fun isUpsert :: "effect \<Rightarrow> bool" where
  "isUpsert (CallCreate f) = True"
| "isUpsert (CallUpdate n f) = True"
| "isUpsert _ = False"

fun isCommit :: "effect \<Rightarrow> bool" where
  "isCommit (PutEntry n entry) = True"
| "isCommit _ = False"

fun upserted :: "effect list \<Rightarrow> File list" where
  "upserted [] = []"
| "upserted (CallCreate f # tr) = f # upserted tr"
| "upserted (CallUpdate n f # tr) = f # upserted tr"
| "upserted (_ # tr) = upserted tr"

fun applyUpsert :: "'os env \<Rightarrow> 'os \<Rightarrow> effect \<Rightarrow> (storeError + 'os) option" where
  "applyUpsert e os (CallCreate f) = Some (store_Create e os f)"
| "applyUpsert e os (CallUpdate n f) = Some (store_Update e os n f)"
| "applyUpsert e os _ = None"

text \<open>
  \<open>commitBeforeUpsert\<close>: some commit to the content store comes before some metadata
  upsert in the trace.  \<open>upsertBeforeCommit\<close>: the other order.
\<close>

definition commitBeforeUpsert :: "effect list \<Rightarrow> bool" where
  "commitBeforeUpsert tr = list_ex isUpsert (dropWhile (\<lambda>x. \<not> isCommit x) tr)"

definition upsertBeforeCommit :: "effect list \<Rightarrow> bool" where
  "upsertBeforeCommit tr = list_ex isCommit (dropWhile (\<lambda>x. \<not> isUpsert x) tr)"

text \<open>
  The object store reads back what was written: after a create or an update that
  succeeded, \<open>Get\<close> under that name returns a File with the content type written.
\<close>

definition readsBack :: "'os env \<Rightarrow> bool" where
  "readsBack e =
     ((\<forall>os f os'. store_Create e os f = Inr os' \<longrightarrow>
         (\<exists>g. store_Get e os' (Name (ObjectMeta f)) = Inr (FileObject g)
              \<and> ContentType (Spec g) = ContentType (Spec f)))
      \<and> (\<forall>os n f os'. store_Update e os n f = Inr os' \<longrightarrow>
         (\<exists>g. store_Get e os' n = Inr (FileObject g)
              \<and> ContentType (Spec g) = ContentType (Spec f))))"

text \<open>
  The success descriptor of an entry of the content store under \<open>n\<close>: status Success,
  code 201, details and message naming the resource (the message also gives the byte
  count of the entry's data).
\<close>

definition successEntry :: "string \<Rightarrow> contentEntry \<Rightarrow> bool" where
  "successEntry n entry =
     (let st = status entry;
          start = ''content uploaded successfully for file '' @ n @ '' (''
                  @ Sprintf_d (int (length (data entry))) @ '' bytes, ''
      in status_Status st = StatusSuccess \<and> status_Code st = StatusCreated
         \<and> status_Details st = Some \<lparr>details_Name = n, details_Kind = ''File''\<rparr>
         \<and> take (length start) (status_Message st) = start)"

definition allSuccess :: "contentStore \<Rightarrow> bool" where
  "allSuccess cs = (\<forall>n entry. cs n = Some entry \<longrightarrow> successEntry n entry)"

text \<open>
  A run of the server: requests served one after the other, each by the handler
  \<open>Connect\<close> made for it, from an object store and a content store on.
\<close>

fun serveAll ::
  "'os env \<Rightarrow> (contentHandler \<times> request) list \<Rightarrow> 'os \<Rightarrow> contentStore \<Rightarrow> 'os \<times> contentStore" where
  "serveAll e [] os cs = (os, cs)"
| "serveAll e ((h, req) # rest) os cs =
     (let r = ServeHTTP e h req os cs in serveAll e rest (objects r) (contents r))"

section \<open>The paths of \<open>handlePut\<close>\<close>

lemma parse_triple:
  "ParseMediaType e (declaredContentType req)
     = (parsedMediaType e req, parsedParams e req, parseError e req)"
  by (simp add: parsedMediaType_def parsedParams_def parseError_def)

lemma request_cases:
  "(\<exists>err. Body req = Inl err) \<or> clientError e req \<or> passesValidation e req"
  by (cases "Body req") (auto simp: clientError_def passesValidation_def bodyRead_def)

lemma handlePut_bodyError:
  "Body req = Inl err \<Longrightarrow>
   handlePut e h req os cs =
     \<lparr>response = HttpError (''failed to read request body: '' @ err) StatusInternalServerError,
      objects = os, contents = cs, calls = []\<rparr>"
  by (simp add: handlePut_def)

lemma handlePut_clientError:
  "clientError e req \<Longrightarrow>
   handlePut e h req os cs =
     \<lparr>response = HttpError (clientErrorMessage e req) StatusBadRequest,
      objects = os, contents = cs, calls = []\<rparr>"
  unfolding clientError_def clientErrorMessage_def bodyRead_def handlePut_def
  using parse_triple[of e req]
  by (auto simp: declaredContentType_def Let_def split: sum.splits option.splits)

lemma handlePut_valid:
  assumes "passesValidation e req"
  shows "handlePut e h req os cs =
     (case store_Get e os (name h) of
        Inl err \<Rightarrow>
          if \<not> IsNotFound err then
            \<lparr>response = ResponderError (Propagated err),
             objects = os, contents = cs, calls = [CallGet (name h)]\<rparr>
          else
            (case store_Create e os (newFile e h req) of
               Inl err \<Rightarrow>
                 \<lparr>response = HttpError (''failed to create file resource: '' @ msg err)
                    StatusInternalServerError,
                  objects = os, contents = cs,
                  calls = [CallGet (name h), CallCreate (newFile e h req)]\<rparr>
             | Inr os' \<Rightarrow>
                 storeContent h (uploadedBytes req) (int (length (uploadedBytes req)))
                   (normalizedContentType e req) os' cs
                   [CallGet (name h), CallCreate (newFile e h req)])
      | Inr OtherObject \<Rightarrow>
          \<lparr>response = ResponderError (Errorf ''object is not a File''),
           objects = os, contents = cs, calls = [CallGet (name h)]\<rparr>
      | Inr (FileObject file) \<Rightarrow>
          (case store_Update e os (name h) (updatedFile e h req file) of
             Inl err \<Rightarrow>
               \<lparr>response = HttpError (''failed to update file resource: '' @ msg err)
                  StatusInternalServerError,
                objects = os, contents = cs,
                calls = [CallGet (name h), CallUpdate (name h) (updatedFile e h req file)]\<rparr>
           | Inr os' \<Rightarrow>
               storeContent h (uploadedBytes req) (int (length (uploadedBytes req)))
                 (normalizedContentType e req) os' cs
                 [CallGet (name h), CallUpdate (name h) (updatedFile e h req file)]))"
  using assms parse_triple[of e req]
  unfolding passesValidation_def bodyRead_def handlePut_def newFile_def updatedFile_def
    uploadedBytes_def normalizedContentType_def
  by (auto simp: declaredContentType_def Let_def split: sum.splits option.splits object.splits)

lemma storeContent_sel:
  "calls (storeContent h bs n ct os cs tr)
     = tr @ [PutEntry (name h) \<lparr>data = bs, status = uploadStatus h n ct\<rparr>]"
  "objects (storeContent h bs n ct os cs tr) = os"
  "contents (storeContent h bs n ct os cs tr)
     = cs(name h \<mapsto> \<lparr>data = bs, status = uploadStatus h n ct\<rparr>)"
  "response (storeContent h bs n ct os cs tr)
     = ResponderObject StatusCreated
         \<lparr>content_TypeMeta = zeroTypeMeta, content_Status = uploadStatus h n ct\<rparr>"
  by (simp_all add: storeContent_def Let_def)

text \<open>A PUT answers 201 only on the two paths that end in \<open>storeContent\<close>.\<close>

lemma handlePut_success:
  assumes "response (handlePut e h req os cs) = ResponderObject code obj"
  shows "passesValidation e req \<and>
     (\<exists>u os'. isUpsert u \<and> applyUpsert e os u = Some (Inr os')
        \<and> (u = CallCreate (newFile e h req)
            \<or> (\<exists>file. store_Get e os (name h) = Inr (FileObject file)
                  \<and> u = CallUpdate (name h) (updatedFile e h req file)))
        \<and> handlePut e h req os cs =
            storeContent h (uploadedBytes req) (int (length (uploadedBytes req)))
              (normalizedContentType e req) os' cs [CallGet (name h), u])"
proof -
  consider err where "Body req = Inl err" | "clientError e req" | "passesValidation e req"
    using request_cases by blast
  then show ?thesis
  proof cases
    case 1
    then show ?thesis using assms by (simp add: handlePut_bodyError)
  next
    case 2
    then show ?thesis using assms by (simp add: handlePut_clientError)
  next
    case 3
    show ?thesis
    proof (cases "store_Get e os (name h)")
      case (Inl err)
      with assms 3 have nf: "IsNotFound err"
        by (auto simp: handlePut_valid[OF 3] split: if_splits)
      from assms 3 Inl nf obtain os' where
        c: "store_Create e os (newFile e h req) = Inr os'"
        by (cases "store_Create e os (newFile e h req)") (auto simp: handlePut_valid[OF 3])
      have "isUpsert (CallCreate (newFile e h req))
          \<and> applyUpsert e os (CallCreate (newFile e h req)) = Some (Inr os')"
        using c by simp
      moreover have "handlePut e h req os cs =
            storeContent h (uploadedBytes req) (int (length (uploadedBytes req)))
              (normalizedContentType e req) os' cs
              [CallGet (name h), CallCreate (newFile e h req)]"
        using Inl nf c by (simp add: handlePut_valid[OF 3])
      ultimately show ?thesis using 3 by blast
    next
      case (Inr ob)
      with assms 3 obtain fl where f: "ob = FileObject fl"
        by (cases ob) (auto simp: handlePut_valid[OF 3])
      from assms 3 Inr f obtain os' where
        c: "store_Update e os (name h) (updatedFile e h req fl) = Inr os'"
        by (cases "store_Update e os (name h) (updatedFile e h req fl)")
           (auto simp: handlePut_valid[OF 3])
      have "isUpsert (CallUpdate (name h) (updatedFile e h req fl))
          \<and> applyUpsert e os (CallUpdate (name h) (updatedFile e h req fl)) = Some (Inr os')"
        using c by simp
      moreover have "handlePut e h req os cs =
            storeContent h (uploadedBytes req) (int (length (uploadedBytes req)))
              (normalizedContentType e req) os' cs
              [CallGet (name h), CallUpdate (name h) (updatedFile e h req fl)]"
        using Inr f c by (simp add: handlePut_valid[OF 3])
      ultimately show ?thesis using 3 Inr f by blast
    qed
  qed
qed

text \<open>Every other answer of a PUT leaves the content store as it was.\<close>

lemma handlePut_contents:
  "contents (handlePut e h req os cs) = cs
   \<or> (\<exists>code obj. response (handlePut e h req os cs) = ResponderObject code obj)"
proof -
  consider err where "Body req = Inl err" | "clientError e req" | "passesValidation e req"
    using request_cases by blast
  then show ?thesis
  proof cases
    case 1
    then show ?thesis by (simp add: handlePut_bodyError)
  next
    case 2
    then show ?thesis by (simp add: handlePut_clientError)
  next
    case 3
    show ?thesis
      unfolding handlePut_valid[OF 3]
      by (simp add: storeContent_sel split: sum.splits object.splits)
  qed
qed

lemma handleGet_frame:
  "contents (handleGet e h req headOnly os cs) = cs"
  "objects (handleGet e h req headOnly os cs) = os"
  "\<not> list_ex isUpsert (calls (handleGet e h req headOnly os cs))"
  "\<not> list_ex isCommit (calls (handleGet e h req headOnly os cs))"
  by (simp_all add: handleGet_def Let_def split: sum.splits object.splits option.splits)

lemma isValid_accepted: "isValidMIMEType mt = acceptedMediaType mt"
proof (cases "CHR ''/'' \<in> set mt")
  case True
  then have "drop (Suc (length (takeWhile (\<lambda>c. c \<noteq> CHR ''/'') mt))) mt
      = tl (dropWhile (\<lambda>c. c \<noteq> CHR ''/'') mt)"
    by (simp add: dropWhile_eq_drop drop_Suc tl_drop)
  with True show ?thesis
    by (auto simp: isValidMIMEType_def acceptedMediaType_def SplitN2_def lookupBool_def
        allowedMIMETypes_def allowedCategories_def topLevelCategory_def subtypeOf_def Let_def)
next
  case False
  then have tw: "takeWhile (\<lambda>c. c \<noteq> CHR ''/'') mt = mt"
    by (auto simp: takeWhile_eq_all_conv)
  have "subtypeOf mt = []"
    unfolding subtypeOf_def topLevelCategory_def tw by simp
  with False show ?thesis
    by (simp add: isValidMIMEType_def acceptedMediaType_def SplitN2_def Let_def)
qed

lemma isValid_nonempty: "isValidMIMEType mt \<Longrightarrow> mt \<noteq> []"
  by (auto simp: isValidMIMEType_def SplitN2_def Let_def)

lemma normalized_nonempty: "passesValidation e req \<Longrightarrow> normalizedContentType e req \<noteq> []"
  by (auto simp: passesValidation_def normalizedContentType_def dest: isValid_nonempty
      split: option.splits)

lemma readDecimal_snoc: "readDecimal (s @ [c]) = 10 * readDecimal s + digitValue c"
  by (simp add: readDecimal_def)

lemma digitValue_digit: "n < 10 \<Longrightarrow> digitValue (digit n) = n"
proof -
  assume "n < 10"
  then have "n \<in> {0, 1, 2, 3, 4, 5, 6, 7, 8, 9}" by auto
  then show ?thesis by (auto simp: digitValue_def digit_def)
qed

lemma readDecimal_decimal: "readDecimal (decimal n) = n"
proof (induction n rule: decimal.induct)
  case (1 n)
  show ?case
  proof (cases "n < 10")
    case True
    then show ?thesis
      by (simp add: digitValue_digit readDecimal_def decimal.simps[of n])
  next
    case False
    then have "decimal n = decimal (n div 10) @ [digit (n mod 10)]"
      by (subst decimal.simps) simp
    with 1 False show ?thesis
      by (simp add: readDecimal_snoc digitValue_digit)
  qed
qed

section \<open>Concrete runs\<close>

lemmas valid_defs = isValidMIMEType_def SplitN2_def lookupBool_def allowedMIMETypes_def Let_def

lemmas mem_defs = mem_Get_def mem_Create_def mem_Update_def PrepareForCreate_def
  PrepareForUpdate_def Validate_def ValidateUpdate_def ValidateFile_def ValidateFileSpec_def
  Canonicalize_def AllowCreateOnUpdate_def IsNotFound_def

lemma goEnv_sel:
  "GroupName goEnv = ''cdn.k8s.toms.place''" "Version goEnv = ''v1alpha1''"
  "ParseMediaType goEnv = goParseMediaType" "Quote goEnv = quotePlain"
  "store_Get goEnv = mem_Get" "store_Create goEnv = mem_Create" "store_Update goEnv = mem_Update"
  by (simp_all add: goEnv_def)

lemma parsed_goEnv:
  "parsedMediaType goEnv req = fst (parseMediaTypeList (declaredContentType req))"
  "parsedParams goEnv req = map_of (fst (snd (parseMediaTypeList (declaredContentType req))))"
  "parseError goEnv req = snd (snd (parseMediaTypeList (declaredContentType req)))"
  by (simp_all add: parsedMediaType_def parsedParams_def parseError_def goEnv_def
      goParseMediaType_def split: prod.splits)

lemma putRequest_sel:
  "declaredContentType (putRequest ct body)
     = (if ct = [] then ''application/octet-stream'' else ct)"
  "bodyRead (putRequest ct body)"
  "uploadedBytes (putRequest ct body) = body"
  "Method (putRequest ct body) = ''PUT''"
  by (simp_all add: declaredContentType_def putRequest_def Header_Get_def bodyRead_def
      uploadedBytes_def)

lemma name_newFile: "Name (ObjectMeta (newFile e h req)) = name h"
  by (simp add: newFile_def)

lemma go_put_new:
  assumes "passesValidation goEnv req" "os (name h) = None"
  shows "handlePut goEnv h req os cs =
     storeContent h (uploadedBytes req) (int (length (uploadedBytes req)))
       (normalizedContentType goEnv req) (os(name h \<mapsto> newFile goEnv h req)) cs
       [CallGet (name h), CallCreate (newFile goEnv h req)]"
  using assms(2)
  by (simp add: handlePut_valid[OF assms(1)] goEnv_sel mem_defs name_newFile)

lemma go_put_existing:
  assumes "passesValidation goEnv req" "os (name h) = Some fl"
  shows "handlePut goEnv h req os cs =
     storeContent h (uploadedBytes req) (int (length (uploadedBytes req)))
       (normalizedContentType goEnv req) (os(name h \<mapsto> updatedFile goEnv h req fl)) cs
       [CallGet (name h), CallUpdate (name h) (updatedFile goEnv h req fl)]"
  using assms(2)
  by (simp add: handlePut_valid[OF assms(1)] goEnv_sel mem_defs)

lemma readsBack_goEnv: "readsBack goEnv"
  unfolding readsBack_def goEnv_sel
  by (auto simp: mem_defs Let_def split: if_splits option.splits)

lemma parse_text_plain: "parseMediaTypeList ''text/plain'' = (''text/plain'', [], None)"
  by code_simp

lemma parse_text_plain_charset:
  "parseMediaTypeList ''text/plain; charset=utf-8''
     = (''text/plain'', [(''charset'', ''utf-8'')], None)"
  by code_simp

lemma parse_text_plain_charset_boundary:
  "parseMediaTypeList ''text/plain; charset=utf-8; boundary=x''
     = (''text/plain'', [(''charset'', ''utf-8''), (''boundary'', ''x'')], None)"
  by code_simp

lemma parse_x_custom:
  "parseMediaTypeList ''application/x-custom'' = (''application/x-custom'', [], None)"
  by code_simp

lemma parse_wibble: "parseMediaTypeList ''wibble/plain'' = (''wibble/plain'', [], None)"
  by code_simp

lemma parse_bogus: "parseMediaTypeList ''bogus-no-slash'' = (''bogus-no-slash'', [], None)"
  by code_simp

lemma parse_text_slash:
  "parseMediaTypeList ''text/'' = ([], [], Some ''mime: expected token after slash'')"
  by code_simp

lemma passes_text_plain: "passesValidation goEnv (putRequest ''text/plain'' body)"
  by (simp add: passesValidation_def putRequest_sel parsed_goEnv parse_text_plain valid_defs)

lemma passes_text_plain_charset:
  "passesValidation goEnv (putRequest ''text/plain; charset=utf-8'' body)"
  by (simp add: passesValidation_def putRequest_sel parsed_goEnv parse_text_plain_charset
      valid_defs)

lemma passes_x_custom: "passesValidation goEnv (putRequest ''application/x-custom'' body)"
  by (simp add: passesValidation_def putRequest_sel parsed_goEnv parse_x_custom valid_defs)

lemma normalized_text_plain:
  "normalizedContentType goEnv (putRequest ''text/plain'' body) = ''text/plain''"
  by (simp add: normalizedContentType_def parsed_goEnv putRequest_sel parse_text_plain)

lemma normalized_text_plain_charset:
  "normalizedContentType goEnv (putRequest ''text/plain; charset=utf-8'' body)
     = ''text/plain; charset=utf-8''"
  by (simp add: normalizedContentType_def parsed_goEnv putRequest_sel parse_text_plain_charset)

lemma normalized_charset_boundary:
  "normalizedContentType goEnv (putRequest ''text/plain; charset=utf-8; boundary=x'' body)
     = ''text/plain; charset=utf-8''"
  by (simp add: normalizedContentType_def parsed_goEnv putRequest_sel
      parse_text_plain_charset_boundary)

lemma reportHandler_sel:
  "name reportHandler = ''report''" "externalHost reportHandler = []"
  "ctx reportHandler = \<lparr>namespace = Some ''toms-place''\<rparr>"
  by (simp_all add: reportHandler_def)

lemma url_report:
  "buildContentURL goEnv reportHandler (putRequest ct body)
     = ''https://localhost:8443/apis/cdn.k8s.toms.place/v1alpha1/namespaces/toms-place/files/report/content''"
  by (simp add: buildContentURL_def goEnv_sel reportHandler_sel putRequest_def
      NamespaceValue_def)

text \<open>The first upload of three bytes of \<open>text/plain\<close> to \<open>report\<close>.\<close>

lemma run_first_put:
  "handlePut goEnv reportHandler (putRequest ''text/plain'' [1, 2, 3]) Map.empty Map.empty =
     storeContent reportHandler [1, 2, 3] 3 ''text/plain''
       [''report'' \<mapsto> newFile goEnv reportHandler (putRequest ''text/plain'' [1, 2, 3])]
       Map.empty
       [CallGet ''report'',
        CallCreate (newFile goEnv reportHandler (putRequest ''text/plain'' [1, 2, 3]))]"
  by (simp add: go_put_new[OF passes_text_plain] reportHandler_sel putRequest_sel
      normalized_text_plain)

section \<open>The order of the two writes of a PUT\<close>

text \<open>
  C1, as stated: for every PUT that reaches the state-mutation phase, the content bytes
  are committed to the content store before the resource metadata is upserted.  The
  first upload to \<open>report\<close> reaches that phase (it upserts), and its trace has no commit
  before the upsert: the upsert comes first.
\<close>

theorem commit_before_upsert_counterexample:
  "list_ex isUpsert
     (calls (handlePut goEnv reportHandler (putRequest ''text/plain'' [1, 2, 3])
        Map.empty Map.empty))
   \<and> \<not> commitBeforeUpsert
     (calls (handlePut goEnv reportHandler (putRequest ''text/plain'' [1, 2, 3])
        Map.empty Map.empty))
   \<and> upsertBeforeCommit
     (calls (handlePut goEnv reportHandler (putRequest ''text/plain'' [1, 2, 3])
        Map.empty Map.empty))"
  by (simp add: run_first_put storeContent_sel commitBeforeUpsert_def upsertBeforeCommit_def)

text \<open>
  C1, amended: within one PUT the resource metadata is upserted first, and the content
  bytes are committed to the content store right after that upsert, whenever the object
  store accepted it and only then.  No trace of a PUT has a commit before an upsert.  A
  PUT that passed validation makes the upsert right after the lookup: the create when
  the lookup reports not-found, the update when it finds a File.  Once the object store
  has accepted the upsert, the commit follows: the trace is the lookup, the upsert and
  the commit of the uploaded bytes under the handler's name, the object store is in the
  state the upsert left, the content store holds the new entry, and the answer is 201.
  A trace with a commit is such a trace; and when the upsert fails the content store is
  left as it was.
\<close>

theorem upsert_before_commit:
  "\<not> commitBeforeUpsert (calls (handlePut e h req os cs))
   \<and> (passesValidation e req \<longrightarrow>
        (\<forall>err. store_Get e os (name h) = Inl err \<and> IsNotFound err \<longrightarrow>
           take 2 (calls (handlePut e h req os cs))
             = [CallGet (name h), CallCreate (newFile e h req)])
        \<and> (\<forall>fl. store_Get e os (name h) = Inr (FileObject fl) \<longrightarrow>
           take 2 (calls (handlePut e h req os cs))
             = [CallGet (name h), CallUpdate (name h) (updatedFile e h req fl)]))
   \<and> (\<forall>u os'. u \<in> set (calls (handlePut e h req os cs))
          \<and> applyUpsert e os u = Some (Inr os') \<longrightarrow>
        calls (handlePut e h req os cs)
          = [CallGet (name h), u,
             PutEntry (name h)
               \<lparr>data = uploadedBytes req,
                status = uploadStatus h (int (length (uploadedBytes req)))
                  (normalizedContentType e req)\<rparr>]
        \<and> objects (handlePut e h req os cs) = os'
        \<and> contents (handlePut e h req os cs)
          = cs(name h \<mapsto>
               \<lparr>data = uploadedBytes req,
                status = uploadStatus h (int (length (uploadedBytes req)))
                  (normalizedContentType e req)\<rparr>)
        \<and> response (handlePut e h req os cs)
          = ResponderObject StatusCreated
              \<lparr>content_TypeMeta = zeroTypeMeta,
               content_Status = uploadStatus h (int (length (uploadedBytes req)))
                 (normalizedContentType e req)\<rparr>)
   \<and> (\<forall>n entry. PutEntry n entry \<in> set (calls (handlePut e h req os cs)) \<longrightarrow>
        (\<exists>u os'. isUpsert u \<and> applyUpsert e os u = Some (Inr os')
           \<and> calls (handlePut e h req os cs) = [CallGet (name h), u, PutEntry n entry]
           \<and> objects (handlePut e h req os cs) = os'
           \<and> n = name h \<and> data entry = uploadedBytes req
           \<and> contents (handlePut e h req os cs) = cs(n \<mapsto> entry)))
   \<and> (\<forall>u err. u \<in> set (calls (handlePut e h req os cs))
          \<and> applyUpsert e os u = Some (Inl err) \<longrightarrow>
        contents (handlePut e h req os cs) = cs
        \<and> \<not> list_ex isCommit (calls (handlePut e h req os cs)))"
proof -
  consider err where "Body req = Inl err" | "clientError e req" | "passesValidation e req"
    using request_cases by blast
  then show ?thesis
  proof cases
    case 1
    then have "\<not> passesValidation e req"
      by (simp add: passesValidation_def bodyRead_def)
    with 1 show ?thesis by (simp add: handlePut_bodyError commitBeforeUpsert_def)
  next
    case 2
    then have "\<not> passesValidation e req"
      by (auto simp: passesValidation_def clientError_def)
    with 2 show ?thesis by (simp add: handlePut_clientError commitBeforeUpsert_def)
  next
    case 3
    show ?thesis
      unfolding handlePut_valid[OF 3]
      by (auto simp: storeContent_sel commitBeforeUpsert_def
          split: sum.splits object.splits)
  qed
qed

theorem upsert_before_commit_witness:
  "passesValidation goEnv (putRequest ''text/plain'' [1, 2, 3])
   \<and> store_Get goEnv Map.empty (name reportHandler)
       = Inl \<lparr>notFound = True, msg = ''files report not found''\<rparr>
   \<and> handlePut goEnv reportHandler (putRequest ''text/plain'' [1, 2, 3]) Map.empty Map.empty
       = \<lparr>response = ResponderObject StatusCreated
            \<lparr>content_TypeMeta = zeroTypeMeta,
             content_Status = uploadStatus reportHandler 3 ''text/plain''\<rparr>,
          objects = [''report'' \<mapsto>
            newFile goEnv reportHandler (putRequest ''text/plain'' [1, 2, 3])],
          contents = [''report'' \<mapsto>
            \<lparr>data = [1, 2, 3], status = uploadStatus reportHandler 3 ''text/plain''\<rparr>],
          calls = [CallGet ''report'',
            CallCreate (newFile goEnv reportHandler (putRequest ''text/plain'' [1, 2, 3])),
            PutEntry ''report''
              \<lparr>data = [1, 2, 3], status = uploadStatus reportHandler 3 ''text/plain''\<rparr>]\<rparr>
   \<and> applyUpsert goEnv Map.empty
        (CallCreate (newFile goEnv reportHandler (putRequest ''text/plain'' [1, 2, 3])))
       = Some (Inr [''report'' \<mapsto>
            newFile goEnv reportHandler (putRequest ''text/plain'' [1, 2, 3])])
   \<and> store_Get goEnv [''report'' \<mapsto> oldReport] (name reportHandler)
       = Inr (FileObject oldReport)
   \<and> handlePut goEnv reportHandler (putRequest ''text/plain'' [1, 2, 3])
        [''report'' \<mapsto> oldReport] Map.empty
       = \<lparr>response = ResponderObject StatusCreated
            \<lparr>content_TypeMeta = zeroTypeMeta,
             content_Status = uploadStatus reportHandler 3 ''text/plain''\<rparr>,
          objects = [''report'' \<mapsto>
            updatedFile goEnv reportHandler (putRequest ''text/plain'' [1, 2, 3]) oldReport],
          contents = [''report'' \<mapsto>
            \<lparr>data = [1, 2, 3], status = uploadStatus reportHandler 3 ''text/plain''\<rparr>],
          calls = [CallGet ''report'',
            CallUpdate ''report''
              (updatedFile goEnv reportHandler (putRequest ''text/plain'' [1, 2, 3]) oldReport),
            PutEntry ''report''
              \<lparr>data = [1, 2, 3], status = uploadStatus reportHandler 3 ''text/plain''\<rparr>]\<rparr>
   \<and> \<not> commitBeforeUpsert
       (calls (handlePut goEnv reportHandler (putRequest ''text/plain'' [1, 2, 3])
          Map.empty Map.empty))
   \<and> handlePut fullEnv reportHandler (putRequest ''text/plain'' [1, 2, 3])
        Map.empty [''report'' \<mapsto> \<lparr>data = [7], status = uploadStatus reportHandler 1 ''text/plain''\<rparr>]
       = \<lparr>response = HttpError ''failed to create file resource: no space''
            StatusInternalServerError,
          objects = Map.empty,
          contents = [''report'' \<mapsto> \<lparr>data = [7], status = uploadStatus reportHandler 1 ''text/plain''\<rparr>],
          calls = [CallGet ''report'',
            CallCreate (newFile fullEnv reportHandler (putRequest ''text/plain'' [1, 2, 3]))]\<rparr>
   \<and> applyUpsert fullEnv Map.empty
        (CallCreate (newFile fullEnv reportHandler (putRequest ''text/plain'' [1, 2, 3])))
       = Some (Inl \<lparr>notFound = False, msg = ''no space''\<rparr>)"
proof -
  have pf: "passesValidation fullEnv (putRequest ''text/plain'' [1, 2, 3])"
    using passes_text_plain[of "[1, 2, 3]"]
    by (simp add: passesValidation_def parsedMediaType_def parseError_def fullEnv_def)
  have full: "handlePut fullEnv reportHandler (putRequest ''text/plain'' [1, 2, 3])
        Map.empty [''report'' \<mapsto> \<lparr>data = [7], status = uploadStatus reportHandler 1 ''text/plain''\<rparr>]
       = \<lparr>response = HttpError ''failed to create file resource: no space''
            StatusInternalServerError,
          objects = Map.empty,
          contents = [''report'' \<mapsto> \<lparr>data = [7], status = uploadStatus reportHandler 1 ''text/plain''\<rparr>],
          calls = [CallGet ''report'',
            CallCreate (newFile fullEnv reportHandler (putRequest ''text/plain'' [1, 2, 3]))]\<rparr>"
  proof -
    have sel: "store_Get fullEnv = mem_Get"
      "store_Create fullEnv = (\<lambda>os f. Inl \<lparr>notFound = False, msg = ''no space''\<rparr>)"
      by (simp_all add: fullEnv_def goEnv_def)
    show ?thesis
      by (simp add: handlePut_valid[OF pf] sel mem_defs reportHandler_sel)
  qed
  have fails: "applyUpsert fullEnv Map.empty
        (CallCreate (newFile fullEnv reportHandler (putRequest ''text/plain'' [1, 2, 3])))
       = Some (Inl \<lparr>notFound = False, msg = ''no space''\<rparr>)"
    by (simp add: fullEnv_def)
  have g1: "store_Get goEnv Map.empty (name reportHandler)
       = Inl \<lparr>notFound = True, msg = ''files report not found''\<rparr>"
    by (simp add: goEnv_sel mem_defs reportHandler_sel)
  have run: "handlePut goEnv reportHandler (putRequest ''text/plain'' [1, 2, 3])
        Map.empty Map.empty
       = \<lparr>response = ResponderObject StatusCreated
            \<lparr>content_TypeMeta = zeroTypeMeta,
             content_Status = uploadStatus reportHandler 3 ''text/plain''\<rparr>,
          objects = [''report'' \<mapsto>
            newFile goEnv reportHandler (putRequest ''text/plain'' [1, 2, 3])],
          contents = [''report'' \<mapsto>
            \<lparr>data = [1, 2, 3], status = uploadStatus reportHandler 3 ''text/plain''\<rparr>],
          calls = [CallGet ''report'',
            CallCreate (newFile goEnv reportHandler (putRequest ''text/plain'' [1, 2, 3])),
            PutEntry ''report''
              \<lparr>data = [1, 2, 3], status = uploadStatus reportHandler 3 ''text/plain''\<rparr>]\<rparr>"
    by (simp add: run_first_put storeContent_def Let_def reportHandler_sel)
  have crt: "applyUpsert goEnv Map.empty
        (CallCreate (newFile goEnv reportHandler (putRequest ''text/plain'' [1, 2, 3])))
       = Some (Inr [''report'' \<mapsto>
            newFile goEnv reportHandler (putRequest ''text/plain'' [1, 2, 3])])"
    by (simp add: goEnv_sel mem_defs name_newFile reportHandler_sel)
  have g2: "store_Get goEnv [''report'' \<mapsto> oldReport] (name reportHandler)
       = Inr (FileObject oldReport)"
    by (simp add: goEnv_sel mem_defs reportHandler_sel)
  have run2: "handlePut goEnv reportHandler (putRequest ''text/plain'' [1, 2, 3])
        [''report'' \<mapsto> oldReport] Map.empty
       = \<lparr>response = ResponderObject StatusCreated
            \<lparr>content_TypeMeta = zeroTypeMeta,
             content_Status = uploadStatus reportHandler 3 ''text/plain''\<rparr>,
          objects = [''report'' \<mapsto>
            updatedFile goEnv reportHandler (putRequest ''text/plain'' [1, 2, 3]) oldReport],
          contents = [''report'' \<mapsto>
            \<lparr>data = [1, 2, 3], status = uploadStatus reportHandler 3 ''text/plain''\<rparr>],
          calls = [CallGet ''report'',
            CallUpdate ''report''
              (updatedFile goEnv reportHandler (putRequest ''text/plain'' [1, 2, 3]) oldReport),
            PutEntry ''report''
              \<lparr>data = [1, 2, 3], status = uploadStatus reportHandler 3 ''text/plain''\<rparr>]\<rparr>"
    by (simp add: go_put_existing[OF passes_text_plain, of "[''report'' \<mapsto> oldReport]"
          reportHandler oldReport] reportHandler_sel storeContent_def Let_def putRequest_sel
        normalized_text_plain)
  have nc: "\<not> commitBeforeUpsert
       (calls (handlePut goEnv reportHandler (putRequest ''text/plain'' [1, 2, 3])
          Map.empty Map.empty))"
    using upsert_before_commit[of goEnv reportHandler "putRequest ''text/plain'' [1, 2, 3]"
        Map.empty Map.empty]
    by blast
  show ?thesis
    using upsert_before_commit[of fullEnv reportHandler "putRequest ''text/plain'' [1, 2, 3]"
        Map.empty "[''report'' \<mapsto> \<lparr>data = [7], status = uploadStatus reportHandler 1 ''text/plain''\<rparr>]"]
      passes_text_plain[of "[1, 2, 3]"] g1 run crt g2 run2 nc full fails
    by blast
qed

section \<open>The content URL\<close>

text \<open>
  C8: the content URL has scheme \<open>https\<close> exactly when the request came over TLS and
  \<open>http\<close> otherwise, the configured external host when it is not empty and the
  request's \<open>Host\<close> otherwise, and the path
  \<open>/apis/{group}/{version}/namespaces/{namespace}/files/{name}/content\<close> with the
  namespace of the request context; and this is the URL of every File a PUT hands to
  the object store.
\<close>

theorem content_url:
  "buildContentURL e h req =
     (if TLS req \<noteq> None then ''https'' else ''http'') @ ''://''
     @ (if externalHost h \<noteq> [] then externalHost h else Host req)
     @ ''/apis/'' @ GroupName e @ ''/'' @ Version e @ ''/namespaces/''
     @ NamespaceValue (ctx h) @ ''/files/'' @ name h @ ''/content''
   \<and> (\<forall>f \<in> set (upserted (calls (handlePut e h req os cs))).
         URL (Spec f) = buildContentURL e h req)"
proof
  show "buildContentURL e h req =
     (if TLS req \<noteq> None then ''https'' else ''http'') @ ''://''
     @ (if externalHost h \<noteq> [] then externalHost h else Host req)
     @ ''/apis/'' @ GroupName e @ ''/'' @ Version e @ ''/namespaces/''
     @ NamespaceValue (ctx h) @ ''/files/'' @ name h @ ''/content''"
    by (simp add: buildContentURL_def Let_def)
next
  consider err where "Body req = Inl err" | "clientError e req" | "passesValidation e req"
    using request_cases by blast
  then show "\<forall>f \<in> set (upserted (calls (handlePut e h req os cs))).
         URL (Spec f) = buildContentURL e h req"
  proof cases
    case 1
    then show ?thesis by (simp add: handlePut_bodyError)
  next
    case 2
    then show ?thesis by (simp add: handlePut_clientError)
  next
    case 3
    then show ?thesis
      by (auto simp: handlePut_valid storeContent_sel newFile_def updatedFile_def
          split: sum.splits object.splits)
  qed
qed

theorem content_url_witness:
  "buildContentURL goEnv reportHandler (putRequest ''text/plain'' [1, 2, 3])
     = ''https://localhost:8443/apis/cdn.k8s.toms.place/v1alpha1/namespaces/toms-place/files/report/content''
   \<and> map (\<lambda>f. URL (Spec f))
        (upserted (calls (handlePut goEnv reportHandler (putRequest ''text/plain'' [1, 2, 3])
           Map.empty Map.empty)))
     = [''https://localhost:8443/apis/cdn.k8s.toms.place/v1alpha1/namespaces/toms-place/files/report/content'']
   \<and> buildContentURL goEnv (reportHandler\<lparr>externalHost := ''cdn.example.org''\<rparr>)
        (putRequest ''text/plain'' [1, 2, 3]\<lparr>TLS := None\<rparr>)
     = ''http://cdn.example.org/apis/cdn.k8s.toms.place/v1alpha1/namespaces/toms-place/files/report/content''"
proof -
  have run: "upserted (calls (handlePut goEnv reportHandler (putRequest ''text/plain'' [1, 2, 3])
           Map.empty Map.empty))
      = [newFile goEnv reportHandler (putRequest ''text/plain'' [1, 2, 3])]"
    by (simp add: run_first_put storeContent_sel)
  have plain: "buildContentURL goEnv (reportHandler\<lparr>externalHost := ''cdn.example.org''\<rparr>)
        (putRequest ''text/plain'' [1, 2, 3]\<lparr>TLS := None\<rparr>)
     = ''http://cdn.example.org/apis/cdn.k8s.toms.place/v1alpha1/namespaces/toms-place/files/report/content''"
    by (simp add: buildContentURL_def goEnv_sel reportHandler_def putRequest_def
        NamespaceValue_def)
  show ?thesis
    using content_url[of goEnv reportHandler "putRequest ''text/plain'' [1, 2, 3]"
        Map.empty Map.empty] plain
    by (simp add: run url_report newFile_def)
qed

section \<open>Validation of the declared content type\<close>

lemma handlePut_badRequest:
  "(\<exists>m. response (handlePut e h req os cs) = HttpError m StatusBadRequest) = clientError e req"
proof -
  consider err where "Body req = Inl err" | "clientError e req" | "passesValidation e req"
    using request_cases by blast
  then show ?thesis
  proof cases
    case 1
    then show ?thesis by (simp add: handlePut_bodyError clientError_def bodyRead_def)
  next
    case 2
    then show ?thesis by (simp add: handlePut_clientError)
  next
    case 3
    then have "\<not> clientError e req"
      by (simp add: clientError_def passesValidation_def)
    then show ?thesis
      unfolding handlePut_valid[OF 3]
      by (simp add: storeContent_sel split: sum.splits object.splits)
  qed
qed

text \<open>
  C4: the declared media type is accepted if and only if its top-level category, the
  part before the \<open>/\<close>, is one of application, audio, font, image, message, model,
  multipart, text, video and its subtype is not empty.  So says \<open>isValidMIMEType\<close>; a
  PUT whose body was read and whose content type parsed is answered with a bad request
  exactly when the media type is not accepted; a PUT of \<open>application/x-custom\<close>
  succeeds (201), whatever is stored already, and a PUT of \<open>wibble/plain\<close> is rejected
  as a bad request with the category error.
\<close>

theorem media_type_accepted:
  "(isValidMIMEType mediaType \<longleftrightarrow> acceptedMediaType mediaType)
   \<and> (bodyRead req \<and> parseError e req = None \<longrightarrow>
        ((\<exists>m. response (handlePut e h req os cs) = HttpError m StatusBadRequest)
           \<longleftrightarrow> \<not> acceptedMediaType (parsedMediaType e req)))
   \<and> (\<exists>obj. response (handlePut goEnv h' (putRequest ''application/x-custom'' body) os' cs')
          = ResponderObject StatusCreated obj)
   \<and> response (handlePut goEnv h' (putRequest ''wibble/plain'' body) os' cs')
        = HttpError (''unsupported Content-Type: wibble/plain''
            @ '' (must be a valid MIME type like text/*, application/*, image/*, etc.)'')
            StatusBadRequest"
proof (intro conjI)
  show "isValidMIMEType mediaType \<longleftrightarrow> acceptedMediaType mediaType"
    by (rule isValid_accepted)
next
  show "bodyRead req \<and> parseError e req = None \<longrightarrow>
        ((\<exists>m. response (handlePut e h req os cs) = HttpError m StatusBadRequest)
           \<longleftrightarrow> \<not> acceptedMediaType (parsedMediaType e req))"
    by (simp add: handlePut_badRequest clientError_def isValid_accepted)
next
  show "\<exists>obj. response (handlePut goEnv h' (putRequest ''application/x-custom'' body) os' cs')
          = ResponderObject StatusCreated obj"
  proof (cases "os' (name h')")
    case None
    then show ?thesis
      by (simp add: go_put_new[OF passes_x_custom] storeContent_sel)
  next
    case (Some fl)
    then show ?thesis
      by (simp add: go_put_existing[OF passes_x_custom] storeContent_sel)
  qed
next
  have "clientError goEnv (putRequest ''wibble/plain'' body)"
    by (simp add: clientError_def putRequest_sel parsed_goEnv parse_wibble valid_defs)
  then show "response (handlePut goEnv h' (putRequest ''wibble/plain'' body) os' cs')
        = HttpError (''unsupported Content-Type: wibble/plain''
            @ '' (must be a valid MIME type like text/*, application/*, image/*, etc.)'')
            StatusBadRequest"
    by (simp add: handlePut_clientError clientErrorMessage_def parsed_goEnv putRequest_sel
        parse_wibble)
qed

theorem media_type_accepted_witness:
  "isValidMIMEType ''application/x-custom'' \<and> \<not> isValidMIMEType ''wibble/plain''
   \<and> \<not> isValidMIMEType ''application/'' \<and> \<not> isValidMIMEType ''text''
   \<and> bodyRead (putRequest ''text/'' [1, 2, 3])
   \<and> parseError goEnv (putRequest ''wibble/plain'' [1, 2, 3]) = None
   \<and> response (handlePut goEnv reportHandler (putRequest ''wibble/plain'' [1, 2, 3])
        Map.empty Map.empty)
        = HttpError (''unsupported Content-Type: wibble/plain''
            @ '' (must be a valid MIME type like text/*, application/*, image/*, etc.)'')
            StatusBadRequest
   \<and> response (handlePut goEnv reportHandler (putRequest ''application/x-custom'' [1, 2, 3])
        Map.empty Map.empty)
        = ResponderObject StatusCreated
            \<lparr>content_TypeMeta = zeroTypeMeta,
             content_Status = uploadStatus reportHandler 3 ''application/x-custom''\<rparr>"
proof -
  have v: "isValidMIMEType ''application/x-custom'' \<and> \<not> isValidMIMEType ''wibble/plain''
     \<and> \<not> isValidMIMEType ''application/'' \<and> \<not> isValidMIMEType ''text''"
    by (simp add: valid_defs)
  have p: "bodyRead (putRequest ''text/'' [1, 2, 3])
     \<and> parseError goEnv (putRequest ''wibble/plain'' [1, 2, 3]) = None"
    by (simp add: putRequest_sel parsed_goEnv parse_wibble)
  have n: "normalizedContentType goEnv (putRequest ''application/x-custom'' [1, 2, 3])
      = ''application/x-custom''"
    by (simp add: normalizedContentType_def parsed_goEnv putRequest_sel parse_x_custom)
  have c: "response (handlePut goEnv reportHandler (putRequest ''application/x-custom'' [1, 2, 3])
        Map.empty Map.empty)
        = ResponderObject StatusCreated
            \<lparr>content_TypeMeta = zeroTypeMeta,
             content_Status = uploadStatus reportHandler 3 ''application/x-custom''\<rparr>"
    by (simp add: go_put_new[OF passes_x_custom] storeContent_sel putRequest_sel n)
  show ?thesis
    using media_type_accepted[of "''application/x-custom''" "putRequest ''wibble/plain'' [1, 2, 3]"
        goEnv reportHandler Map.empty Map.empty reportHandler "[1, 2, 3]" Map.empty Map.empty]
      v p c
    by simp
qed

text \<open>
  C7: a PUT rejected as a client error (its content type does not parse, or the media
  type is not valid) is answered with status 400 and a message that gives the parser's
  error or names the media type, and nothing is mutated: the object store and the
  content store (so the entry under the name, present or absent) are as before, and no
  call went to the object store.  These are the only PUTs answered with 400.
\<close>

theorem client_error_no_mutation:
  "(clientError e req \<longrightarrow>
      response (handlePut e h req os cs) = HttpError (clientErrorMessage e req) StatusBadRequest
      \<and> clientErrorMessage e req \<noteq> []
      \<and> objects (handlePut e h req os cs) = os
      \<and> contents (handlePut e h req os cs) = cs
      \<and> contents (handlePut e h req os cs) (name h) = cs (name h)
      \<and> calls (handlePut e h req os cs) = [])
   \<and> ((\<exists>m. response (handlePut e h req os cs) = HttpError m StatusBadRequest)
        \<longrightarrow> clientError e req)"
proof -
  have "clientErrorMessage e req \<noteq> []"
    by (simp add: clientErrorMessage_def split: option.splits)
  then show ?thesis
    by (simp add: handlePut_clientError handlePut_badRequest)
qed

theorem client_error_no_mutation_witness:
  "clientError goEnv (putRequest ''text/'' [1, 2, 3])
   \<and> clientError goEnv (putRequest ''wibble/plain'' [1, 2, 3])
   \<and> handlePut goEnv reportHandler (putRequest ''text/'' [1, 2, 3]) Map.empty Map.empty
       = \<lparr>response = HttpError ''invalid Content-Type: mime: expected token after slash''
            StatusBadRequest,
          objects = Map.empty, contents = Map.empty, calls = []\<rparr>
   \<and> handlePut goEnv reportHandler (putRequest ''wibble/plain'' [1, 2, 3]) Map.empty Map.empty
       = \<lparr>response = HttpError (''unsupported Content-Type: wibble/plain''
            @ '' (must be a valid MIME type like text/*, application/*, image/*, etc.)'')
            StatusBadRequest,
          objects = Map.empty, contents = Map.empty, calls = []\<rparr>"
proof -
  have a: "clientError goEnv (putRequest ''text/'' [1, 2, 3])"
    by (simp add: clientError_def putRequest_sel parsed_goEnv parse_text_slash)
  have b: "clientError goEnv (putRequest ''wibble/plain'' [1, 2, 3])"
    by (simp add: clientError_def putRequest_sel parsed_goEnv parse_wibble valid_defs)
  have ma: "clientErrorMessage goEnv (putRequest ''text/'' [1, 2, 3])
      = ''invalid Content-Type: mime: expected token after slash''"
    by (simp add: clientErrorMessage_def putRequest_sel parsed_goEnv parse_text_slash)
  have mb: "clientErrorMessage goEnv (putRequest ''wibble/plain'' [1, 2, 3])
      = ''unsupported Content-Type: wibble/plain''
            @ '' (must be a valid MIME type like text/*, application/*, image/*, etc.)''"
    by (simp add: clientErrorMessage_def putRequest_sel parsed_goEnv parse_wibble)
  show ?thesis
    using client_error_no_mutation[of goEnv "putRequest ''text/'' [1, 2, 3]" reportHandler
        Map.empty Map.empty] a b
    by (simp add: handlePut_clientError ma mb)
qed

text \<open>
  C6, as stated: a PUT with the content type \<open>bogus-no-slash\<close> is rejected with the
  parse failure (invalid Content-Type), not with the category error.  It is the other
  way round.
\<close>

theorem bogus_no_slash_counterexample:
  "\<not> isParseFailure
       (response (handlePut goEnv reportHandler (putRequest ''bogus-no-slash'' [1, 2, 3])
          Map.empty Map.empty))
   \<and> isCategoryError
       (response (handlePut goEnv reportHandler (putRequest ''bogus-no-slash'' [1, 2, 3])
          Map.empty Map.empty))"
proof -
  have "clientError goEnv (putRequest ''bogus-no-slash'' [1, 2, 3])"
    by (simp add: clientError_def putRequest_sel parsed_goEnv parse_bogus valid_defs)
  then show ?thesis
    by (simp add: handlePut_clientError clientErrorMessage_def parsed_goEnv putRequest_sel
        parse_bogus isParseFailure_def isCategoryError_def)
qed

text \<open>
  C6, amended: a PUT with the content type \<open>bogus-no-slash\<close> is rejected as a bad
  request with the category error (unsupported Content-Type), and nothing is mutated.
  The parser takes a single token for a media type, and it is \<open>isValidMIMEType\<close> that
  refuses a media type with no \<open>/\<close>: with any parser, a PUT whose content type parses
  to a media type with no \<open>/\<close> gets the category error.
\<close>

theorem bogus_no_slash_unsupported:
  "handlePut goEnv h' (putRequest ''bogus-no-slash'' body) os' cs'
     = \<lparr>response = HttpError (''unsupported Content-Type: bogus-no-slash''
            @ '' (must be a valid MIME type like text/*, application/*, image/*, etc.)'')
            StatusBadRequest,
        objects = os', contents = cs', calls = []\<rparr>
   \<and> goParseMediaType ''bogus-no-slash'' = (''bogus-no-slash'', Map.empty, None)
   \<and> (bodyRead req \<and> parseError e req = None \<and> CHR ''/'' \<notin> set (parsedMediaType e req)
        \<longrightarrow> isCategoryError (response (handlePut e h req os cs))
            \<and> \<not> isParseFailure (response (handlePut e h req os cs)))"
proof (intro conjI)
  have "clientError goEnv (putRequest ''bogus-no-slash'' body)"
    by (simp add: clientError_def putRequest_sel parsed_goEnv parse_bogus valid_defs)
  then show "handlePut goEnv h' (putRequest ''bogus-no-slash'' body) os' cs'
     = \<lparr>response = HttpError (''unsupported Content-Type: bogus-no-slash''
            @ '' (must be a valid MIME type like text/*, application/*, image/*, etc.)'')
            StatusBadRequest,
        objects = os', contents = cs', calls = []\<rparr>"
    by (simp add: handlePut_clientError clientErrorMessage_def parsed_goEnv putRequest_sel
        parse_bogus)
next
  show "goParseMediaType ''bogus-no-slash'' = (''bogus-no-slash'', Map.empty, None)"
    by (simp add: goParseMediaType_def parse_bogus)
next
  show "bodyRead req \<and> parseError e req = None \<and> CHR ''/'' \<notin> set (parsedMediaType e req)
        \<longrightarrow> isCategoryError (response (handlePut e h req os cs))
            \<and> \<not> isParseFailure (response (handlePut e h req os cs))"
  proof
    assume a: "bodyRead req \<and> parseError e req = None
      \<and> CHR ''/'' \<notin> set (parsedMediaType e req)"
    then have "\<not> isValidMIMEType (parsedMediaType e req)"
      by (simp add: isValidMIMEType_def SplitN2_def)
    with a have "clientError e req" by (simp add: clientError_def)
    with a show "isCategoryError (response (handlePut e h req os cs))
            \<and> \<not> isParseFailure (response (handlePut e h req os cs))"
      by (simp add: handlePut_clientError clientErrorMessage_def isCategoryError_def
          isParseFailure_def)
  qed
qed

theorem bogus_no_slash_unsupported_witness:
  "bodyRead (putRequest ''bogus-no-slash'' [1, 2, 3])
   \<and> parseError goEnv (putRequest ''bogus-no-slash'' [1, 2, 3]) = None
   \<and> CHR ''/'' \<notin> set (parsedMediaType goEnv (putRequest ''bogus-no-slash'' [1, 2, 3]))
   \<and> isCategoryError
       (response (handlePut goEnv reportHandler (putRequest ''bogus-no-slash'' [1, 2, 3])
          Map.empty Map.empty))
   \<and> contents (handlePut goEnv reportHandler (putRequest ''bogus-no-slash'' [1, 2, 3])
          Map.empty Map.empty) = Map.empty"
proof -
  have p: "bodyRead (putRequest ''bogus-no-slash'' [1, 2, 3])
     \<and> parseError goEnv (putRequest ''bogus-no-slash'' [1, 2, 3]) = None
     \<and> CHR ''/'' \<notin> set (parsedMediaType goEnv (putRequest ''bogus-no-slash'' [1, 2, 3]))"
    by (simp add: putRequest_sel parsed_goEnv parse_bogus)
  show ?thesis
    using bogus_no_slash_unsupported[of reportHandler "[1, 2, 3]" Map.empty Map.empty
        "putRequest ''bogus-no-slash'' [1, 2, 3]" goEnv reportHandler Map.empty Map.empty] p
    by (simp add: isCategoryError_def)
qed

section \<open>The metadata upsert\<close>

lemma upserted_valid:
  assumes "passesValidation e req"
  shows "upserted (calls (handlePut e h req os cs)) = []
     \<or> upserted (calls (handlePut e h req os cs)) = [newFile e h req]
     \<or> (\<exists>fl. store_Get e os (name h) = Inr (FileObject fl)
           \<and> upserted (calls (handlePut e h req os cs)) = [updatedFile e h req fl])"
  unfolding handlePut_valid[OF assms]
  by (simp add: storeContent_sel split: sum.splits object.splits)

text \<open>
  C5: for every accepted PUT the content type stored in the resource metadata is the
  parsed media type with the charset parameter and no other: \<open>type/subtype;
  charset=value\<close> when the declared content type carried a charset, the bare
  \<open>type/subtype\<close> otherwise.  This is the content type of every File the PUT hands to
  the object store, and a PUT that succeeds hands over exactly one.  The File goes into
  the object store: when the lookup reports not-found the PUT creates a File with this
  content type, when it finds a File the PUT updates it to one with this content type,
  and the state the object store accepted the File with is the state the PUT leaves;
  from an object store that reads back what was written, the File under the name has
  this content type after a PUT that succeeded.  With Go's parser,
  \<open>text/plain; charset=utf-8\<close> is stored as it is, \<open>text/plain\<close> as it is, and
  \<open>text/plain; charset=utf-8; boundary=x\<close> without its boundary.
\<close>

theorem stored_content_type:
  "(passesValidation e req \<longrightarrow>
      (\<forall>f \<in> set (upserted (calls (handlePut e h req os cs))).
         ContentType (Spec f)
           = (case parsedParams e req ''charset'' of
                Some v \<Rightarrow> parsedMediaType e req @ ''; charset='' @ v
              | None \<Rightarrow> parsedMediaType e req)))
   \<and> (\<forall>code obj. response (handlePut e h req os cs) = ResponderObject code obj \<longrightarrow>
        passesValidation e req
        \<and> (\<exists>f. upserted (calls (handlePut e h req os cs)) = [f]))
   \<and> (passesValidation e req \<longrightarrow>
        (\<forall>err. store_Get e os (name h) = Inl err \<and> IsNotFound err \<longrightarrow>
           (\<exists>f. upserted (calls (handlePut e h req os cs)) = [f]
              \<and> ContentType (Spec f)
                  = (case parsedParams e req ''charset'' of
                       Some v \<Rightarrow> parsedMediaType e req @ ''; charset='' @ v
                     | None \<Rightarrow> parsedMediaType e req)
              \<and> (\<forall>os'. store_Create e os f = Inr os' \<longrightarrow>
                    objects (handlePut e h req os cs) = os'
                    \<and> (\<exists>obj. response (handlePut e h req os cs)
                          = ResponderObject StatusCreated obj))))
        \<and> (\<forall>fl. store_Get e os (name h) = Inr (FileObject fl) \<longrightarrow>
           (\<exists>f. upserted (calls (handlePut e h req os cs)) = [f]
              \<and> ContentType (Spec f)
                  = (case parsedParams e req ''charset'' of
                       Some v \<Rightarrow> parsedMediaType e req @ ''; charset='' @ v
                     | None \<Rightarrow> parsedMediaType e req)
              \<and> (\<forall>os'. store_Update e os (name h) f = Inr os' \<longrightarrow>
                    objects (handlePut e h req os cs) = os'
                    \<and> (\<exists>obj. response (handlePut e h req os cs)
                          = ResponderObject StatusCreated obj)))))
   \<and> (readsBack e \<longrightarrow>
        (\<forall>code obj. response (handlePut e h req os cs) = ResponderObject code obj \<longrightarrow>
           (\<exists>g. store_Get e (objects (handlePut e h req os cs)) (name h)
                  = Inr (FileObject g)
              \<and> ContentType (Spec g)
                  = (case parsedParams e req ''charset'' of
                       Some v \<Rightarrow> parsedMediaType e req @ ''; charset='' @ v
                     | None \<Rightarrow> parsedMediaType e req))))
   \<and> normalizedContentType goEnv (putRequest ''text/plain; charset=utf-8'' body)
        = ''text/plain; charset=utf-8''
   \<and> normalizedContentType goEnv (putRequest ''text/plain'' body) = ''text/plain''
   \<and> normalizedContentType goEnv (putRequest ''text/plain; charset=utf-8; boundary=x'' body)
        = ''text/plain; charset=utf-8''"
proof (intro conjI)
  show "passesValidation e req \<longrightarrow>
      (\<forall>f \<in> set (upserted (calls (handlePut e h req os cs))).
         ContentType (Spec f)
           = (case parsedParams e req ''charset'' of
                Some v \<Rightarrow> parsedMediaType e req @ ''; charset='' @ v
              | None \<Rightarrow> parsedMediaType e req))"
  proof
    assume v: "passesValidation e req"
    have n: "ContentType (Spec (newFile e h req)) = normalizedContentType e req"
      by (simp add: newFile_def)
    have u: "ContentType (Spec (updatedFile e h req fl)) = normalizedContentType e req" for fl
      by (simp add: updatedFile_def)
    from upserted_valid[OF v, of h os cs] n u
    show "\<forall>f \<in> set (upserted (calls (handlePut e h req os cs))).
         ContentType (Spec f)
           = (case parsedParams e req ''charset'' of
                Some v \<Rightarrow> parsedMediaType e req @ ''; charset='' @ v
              | None \<Rightarrow> parsedMediaType e req)"
      unfolding normalizedContentType_def by auto
  qed
next
  show "\<forall>code obj. response (handlePut e h req os cs) = ResponderObject code obj \<longrightarrow>
        passesValidation e req
        \<and> (\<exists>f. upserted (calls (handlePut e h req os cs)) = [f])"
  proof (intro allI impI)
    fix code obj
    assume "response (handlePut e h req os cs) = ResponderObject code obj"
    from handlePut_success[OF this] obtain u os' where
      v: "passesValidation e req" and u: "isUpsert u" and
      eq: "handlePut e h req os cs =
            storeContent h (uploadedBytes req) (int (length (uploadedBytes req)))
              (normalizedContentType e req) os' cs [CallGet (name h), u]"
      by blast
    from u have "\<exists>f. upserted [CallGet (name h), u,
        PutEntry (name h) \<lparr>data = uploadedBytes req,
          status = uploadStatus h (int (length (uploadedBytes req)))
            (normalizedContentType e req)\<rparr>] = [f]"
      by (cases u) simp_all
    with v eq show "passesValidation e req
        \<and> (\<exists>f. upserted (calls (handlePut e h req os cs)) = [f])"
      by (simp add: storeContent_sel)
  qed
next
  show "passesValidation e req \<longrightarrow>
        (\<forall>err. store_Get e os (name h) = Inl err \<and> IsNotFound err \<longrightarrow>
           (\<exists>f. upserted (calls (handlePut e h req os cs)) = [f]
              \<and> ContentType (Spec f)
                  = (case parsedParams e req ''charset'' of
                       Some v \<Rightarrow> parsedMediaType e req @ ''; charset='' @ v
                     | None \<Rightarrow> parsedMediaType e req)
              \<and> (\<forall>os'. store_Create e os f = Inr os' \<longrightarrow>
                    objects (handlePut e h req os cs) = os'
                    \<and> (\<exists>obj. response (handlePut e h req os cs)
                          = ResponderObject StatusCreated obj))))
        \<and> (\<forall>fl. store_Get e os (name h) = Inr (FileObject fl) \<longrightarrow>
           (\<exists>f. upserted (calls (handlePut e h req os cs)) = [f]
              \<and> ContentType (Spec f)
                  = (case parsedParams e req ''charset'' of
                       Some v \<Rightarrow> parsedMediaType e req @ ''; charset='' @ v
                     | None \<Rightarrow> parsedMediaType e req)
              \<and> (\<forall>os'. store_Update e os (name h) f = Inr os' \<longrightarrow>
                    objects (handlePut e h req os cs) = os'
                    \<and> (\<exists>obj. response (handlePut e h req os cs)
                          = ResponderObject StatusCreated obj))))"
  proof (intro impI conjI allI)
    fix err
    assume v: "passesValidation e req"
      and g: "store_Get e os (name h) = Inl err \<and> IsNotFound err"
    show "\<exists>f. upserted (calls (handlePut e h req os cs)) = [f]
              \<and> ContentType (Spec f)
                  = (case parsedParams e req ''charset'' of
                       Some v \<Rightarrow> parsedMediaType e req @ ''; charset='' @ v
                     | None \<Rightarrow> parsedMediaType e req)
              \<and> (\<forall>os'. store_Create e os f = Inr os' \<longrightarrow>
                    objects (handlePut e h req os cs) = os'
                    \<and> (\<exists>obj. response (handlePut e h req os cs)
                          = ResponderObject StatusCreated obj))"
    proof (intro exI[of _ "newFile e h req"] conjI)
      show "upserted (calls (handlePut e h req os cs)) = [newFile e h req]"
        using g by (simp add: handlePut_valid[OF v] storeContent_sel split: sum.splits)
      show "ContentType (Spec (newFile e h req))
          = (case parsedParams e req ''charset'' of
               Some v \<Rightarrow> parsedMediaType e req @ ''; charset='' @ v
             | None \<Rightarrow> parsedMediaType e req)"
        by (simp add: newFile_def normalizedContentType_def)
      show "\<forall>os'. store_Create e os (newFile e h req) = Inr os' \<longrightarrow>
                    objects (handlePut e h req os cs) = os'
                    \<and> (\<exists>obj. response (handlePut e h req os cs)
                          = ResponderObject StatusCreated obj)"
        using g by (simp add: handlePut_valid[OF v] storeContent_sel)
    qed
  next
    fix fl
    assume v: "passesValidation e req"
      and g: "store_Get e os (name h) = Inr (FileObject fl)"
    show "\<exists>f. upserted (calls (handlePut e h req os cs)) = [f]
              \<and> ContentType (Spec f)
                  = (case parsedParams e req ''charset'' of
                       Some v \<Rightarrow> parsedMediaType e req @ ''; charset='' @ v
                     | None \<Rightarrow> parsedMediaType e req)
              \<and> (\<forall>os'. store_Update e os (name h) f = Inr os' \<longrightarrow>
                    objects (handlePut e h req os cs) = os'
                    \<and> (\<exists>obj. response (handlePut e h req os cs)
                          = ResponderObject StatusCreated obj))"
    proof (intro exI[of _ "updatedFile e h req fl"] conjI)
      show "upserted (calls (handlePut e h req os cs)) = [updatedFile e h req fl]"
        using g by (simp add: handlePut_valid[OF v] storeContent_sel split: sum.splits)
      show "ContentType (Spec (updatedFile e h req fl))
          = (case parsedParams e req ''charset'' of
               Some v \<Rightarrow> parsedMediaType e req @ ''; charset='' @ v
             | None \<Rightarrow> parsedMediaType e req)"
        by (simp add: updatedFile_def normalizedContentType_def)
      show "\<forall>os'. store_Update e os (name h) (updatedFile e h req fl) = Inr os' \<longrightarrow>
                    objects (handlePut e h req os cs) = os'
                    \<and> (\<exists>obj. response (handlePut e h req os cs)
                          = ResponderObject StatusCreated obj)"
        using g by (simp add: handlePut_valid[OF v] storeContent_sel)
    qed
  qed
next
  show "readsBack e \<longrightarrow>
        (\<forall>code obj. response (handlePut e h req os cs) = ResponderObject code obj \<longrightarrow>
           (\<exists>g. store_Get e (objects (handlePut e h req os cs)) (name h)
                  = Inr (FileObject g)
              \<and> ContentType (Spec g)
                  = (case parsedParams e req ''charset'' of
                       Some v \<Rightarrow> parsedMediaType e req @ ''; charset='' @ v
                     | None \<Rightarrow> parsedMediaType e req)))"
  proof (intro impI allI)
    fix code obj
    assume rb: "readsBack e"
      and ok: "response (handlePut e h req os cs) = ResponderObject code obj"
    from handlePut_success[OF ok] obtain u os' where
      up: "applyUpsert e os u = Some (Inr os')" and
      u: "u = CallCreate (newFile e h req)
          \<or> (\<exists>fl. store_Get e os (name h) = Inr (FileObject fl)
                \<and> u = CallUpdate (name h) (updatedFile e h req fl))" and
      eq: "handlePut e h req os cs =
            storeContent h (uploadedBytes req) (int (length (uploadedBytes req)))
              (normalizedContentType e req) os' cs [CallGet (name h), u]"
      by blast
    have ob: "objects (handlePut e h req os cs) = os'"
      by (simp add: eq storeContent_sel)
    from u have "\<exists>g. store_Get e os' (name h) = Inr (FileObject g)
        \<and> ContentType (Spec g) = normalizedContentType e req"
    proof (elim disjE exE conjE)
      assume c: "u = CallCreate (newFile e h req)"
      with up have "store_Create e os (newFile e h req) = Inr os'" by simp
      with rb obtain g where "store_Get e os' (Name (ObjectMeta (newFile e h req)))
          = Inr (FileObject g)"
        "ContentType (Spec g) = ContentType (Spec (newFile e h req))"
        unfolding readsBack_def by blast
      then show ?thesis by (auto simp: newFile_def)
    next
      fix fl
      assume c: "u = CallUpdate (name h) (updatedFile e h req fl)"
      with up have "store_Update e os (name h) (updatedFile e h req fl) = Inr os'" by simp
      with rb obtain g where "store_Get e os' (name h) = Inr (FileObject g)"
        "ContentType (Spec g) = ContentType (Spec (updatedFile e h req fl))"
        unfolding readsBack_def by blast
      then show ?thesis by (auto simp: updatedFile_def)
    qed
    then show "\<exists>g. store_Get e (objects (handlePut e h req os cs)) (name h)
                  = Inr (FileObject g)
              \<and> ContentType (Spec g)
                  = (case parsedParams e req ''charset'' of
                       Some v \<Rightarrow> parsedMediaType e req @ ''; charset='' @ v
                     | None \<Rightarrow> parsedMediaType e req)"
      unfolding ob normalizedContentType_def .
  qed
next
  show "normalizedContentType goEnv (putRequest ''text/plain; charset=utf-8'' body)
        = ''text/plain; charset=utf-8''"
    by (rule normalized_text_plain_charset)
next
  show "normalizedContentType goEnv (putRequest ''text/plain'' body) = ''text/plain''"
    by (rule normalized_text_plain)
next
  show "normalizedContentType goEnv (putRequest ''text/plain; charset=utf-8; boundary=x'' body)
        = ''text/plain; charset=utf-8''"
    by (rule normalized_charset_boundary)
qed

theorem stored_content_type_witness:
  "passesValidation goEnv (putRequest ''text/plain; charset=utf-8'' [1, 2, 3])
   \<and> readsBack goEnv
   \<and> store_Get goEnv Map.empty (name reportHandler)
       = Inl \<lparr>notFound = True, msg = ''files report not found''\<rparr>
   \<and> map (\<lambda>f. ContentType (Spec f))
       (upserted (calls (handlePut goEnv reportHandler
          (putRequest ''text/plain; charset=utf-8'' [1, 2, 3]) Map.empty Map.empty)))
       = [''text/plain; charset=utf-8'']
   \<and> map_option (\<lambda>f. ContentType (Spec f))
       (objects (handlePut goEnv reportHandler
          (putRequest ''text/plain; charset=utf-8'' [1, 2, 3]) Map.empty Map.empty) ''report'')
       = Some ''text/plain; charset=utf-8''
   \<and> store_Get goEnv [''report'' \<mapsto> oldReport] (name reportHandler)
       = Inr (FileObject oldReport)
   \<and> ContentType (Spec oldReport) = ''application/pdf''
   \<and> map_option (\<lambda>f. ContentType (Spec f))
       (objects (handlePut goEnv reportHandler
          (putRequest ''text/plain; charset=utf-8'' [1, 2, 3])
          [''report'' \<mapsto> oldReport] Map.empty) ''report'')
       = Some ''text/plain; charset=utf-8''
   \<and> response (handlePut goEnv reportHandler
          (putRequest ''text/plain; charset=utf-8'' [1, 2, 3]) Map.empty Map.empty)
       = ResponderObject StatusCreated
           \<lparr>content_TypeMeta = zeroTypeMeta,
            content_Status = uploadStatus reportHandler 3 ''text/plain; charset=utf-8''\<rparr>
   \<and> parsedParams goEnv (putRequest ''text/plain; charset=utf-8'' [1, 2, 3]) ''charset''
       = Some ''utf-8''
   \<and> parsedMediaType goEnv (putRequest ''text/plain; charset=utf-8'' [1, 2, 3]) = ''text/plain''"
proof -
  have g1: "store_Get goEnv Map.empty (name reportHandler)
       = Inl \<lparr>notFound = True, msg = ''files report not found''\<rparr>"
    by (simp add: goEnv_sel mem_defs reportHandler_sel)
  have g2: "store_Get goEnv [''report'' \<mapsto> oldReport] (name reportHandler)
       = Inr (FileObject oldReport)"
    by (simp add: goEnv_sel mem_defs reportHandler_sel)
  have old: "ContentType (Spec oldReport) = ''application/pdf''"
    by (simp add: oldReport_def)
  have u: "upserted (calls (handlePut goEnv reportHandler
          (putRequest ''text/plain; charset=utf-8'' [1, 2, 3]) Map.empty Map.empty))
      = [newFile goEnv reportHandler (putRequest ''text/plain; charset=utf-8'' [1, 2, 3])]"
    by (simp add: go_put_new[OF passes_text_plain_charset] storeContent_sel)
  have o1: "map_option (\<lambda>f. ContentType (Spec f))
       (objects (handlePut goEnv reportHandler
          (putRequest ''text/plain; charset=utf-8'' [1, 2, 3]) Map.empty Map.empty) ''report'')
       = Some ''text/plain; charset=utf-8''"
    by (simp add: go_put_new[OF passes_text_plain_charset] storeContent_sel reportHandler_sel
        newFile_def normalized_text_plain_charset)
  have o2: "map_option (\<lambda>f. ContentType (Spec f))
       (objects (handlePut goEnv reportHandler
          (putRequest ''text/plain; charset=utf-8'' [1, 2, 3])
          [''report'' \<mapsto> oldReport] Map.empty) ''report'')
       = Some ''text/plain; charset=utf-8''"
    by (simp add: go_put_existing[OF passes_text_plain_charset,
          of "[''report'' \<mapsto> oldReport]" reportHandler oldReport]
        storeContent_sel reportHandler_sel updatedFile_def normalized_text_plain_charset)
  have r: "response (handlePut goEnv reportHandler
          (putRequest ''text/plain; charset=utf-8'' [1, 2, 3]) Map.empty Map.empty)
       = ResponderObject StatusCreated
           \<lparr>content_TypeMeta = zeroTypeMeta,
            content_Status = uploadStatus reportHandler 3 ''text/plain; charset=utf-8''\<rparr>"
    by (simp add: go_put_new[OF passes_text_plain_charset] storeContent_sel reportHandler_sel
        putRequest_sel normalized_text_plain_charset)
  have p: "parsedParams goEnv (putRequest ''text/plain; charset=utf-8'' [1, 2, 3]) ''charset''
       = Some ''utf-8''
     \<and> parsedMediaType goEnv (putRequest ''text/plain; charset=utf-8'' [1, 2, 3])
       = ''text/plain''"
    by (simp add: parsed_goEnv putRequest_sel parse_text_plain_charset)
  have m: "map (\<lambda>f. ContentType (Spec f))
       (upserted (calls (handlePut goEnv reportHandler
          (putRequest ''text/plain; charset=utf-8'' [1, 2, 3]) Map.empty Map.empty)))
       = [''text/plain; charset=utf-8'']"
    by (simp add: u newFile_def normalized_text_plain_charset)
  show ?thesis
    using stored_content_type[of goEnv "putRequest ''text/plain; charset=utf-8'' [1, 2, 3]"
        reportHandler Map.empty Map.empty "[1, 2, 3]"]
      passes_text_plain_charset[of "[1, 2, 3]"] readsBack_goEnv g1 g2 old m o1 o2 r p
    by blast
qed

text \<open>
  C3: a PUT that passed validation looks the resource up.  When the lookup reports
  not-found, the PUT creates a resource under the handler's name with
  \<open>status.uploaded\<close> true and \<open>spec.size\<close> the uploaded byte count, and if the object
  store accepts it, that is the new state of the object store and the PUT goes on to
  answer 201.  When the lookup finds a File, the PUT submits it as an update under the
  same name, with \<open>spec.url\<close>, \<open>spec.size\<close>, \<open>spec.contentType\<close> and \<open>status.uploaded\<close>
  set and \<open>status.error\<close> empty.  Any other lookup error ends the PUT there: the error
  goes to the responder, no create and no update is called, and both stores are as
  before.
\<close>

theorem put_upsert:
  "passesValidation e req \<longrightarrow>
     (\<forall>err. store_Get e os (name h) = Inl err \<and> IsNotFound err \<longrightarrow>
        (\<exists>f. take 2 (calls (handlePut e h req os cs)) = [CallGet (name h), CallCreate f]
           \<and> upserted (calls (handlePut e h req os cs)) = [f]
           \<and> Name (ObjectMeta f) = name h
           \<and> Uploaded (Status f)
           \<and> Size (Spec f) = int (length (uploadedBytes req))
           \<and> (\<forall>os'. store_Create e os f = Inr os' \<longrightarrow>
                objects (handlePut e h req os cs) = os'
                \<and> (\<exists>obj. response (handlePut e h req os cs)
                      = ResponderObject StatusCreated obj))))
     \<and> (\<forall>fl. store_Get e os (name h) = Inr (FileObject fl) \<longrightarrow>
        (\<exists>f. take 2 (calls (handlePut e h req os cs)) = [CallGet (name h), CallUpdate (name h) f]
           \<and> upserted (calls (handlePut e h req os cs)) = [f]
           \<and> Name (ObjectMeta f) = Name (ObjectMeta fl)
           \<and> URL (Spec f) = buildContentURL e h req
           \<and> Size (Spec f) = int (length (uploadedBytes req))
           \<and> ContentType (Spec f) = normalizedContentType e req
           \<and> Uploaded (Status f)
           \<and> Error (Status f) = []
           \<and> (\<forall>os'. store_Update e os (name h) f = Inr os' \<longrightarrow>
                objects (handlePut e h req os cs) = os'
                \<and> (\<exists>obj. response (handlePut e h req os cs)
                      = ResponderObject StatusCreated obj))))
     \<and> (\<forall>err. store_Get e os (name h) = Inl err \<and> \<not> IsNotFound err \<longrightarrow>
        response (handlePut e h req os cs) = ResponderError (Propagated err)
        \<and> calls (handlePut e h req os cs) = [CallGet (name h)]
        \<and> objects (handlePut e h req os cs) = os
        \<and> contents (handlePut e h req os cs) = cs)"
proof
  assume v: "passesValidation e req"
  have created: "\<exists>f. take 2 (calls (handlePut e h req os cs)) = [CallGet (name h), CallCreate f]
           \<and> upserted (calls (handlePut e h req os cs)) = [f]
           \<and> Name (ObjectMeta f) = name h
           \<and> Uploaded (Status f)
           \<and> Size (Spec f) = int (length (uploadedBytes req))
           \<and> (\<forall>os'. store_Create e os f = Inr os' \<longrightarrow>
                objects (handlePut e h req os cs) = os'
                \<and> (\<exists>obj. response (handlePut e h req os cs)
                      = ResponderObject StatusCreated obj))"
    if "store_Get e os (name h) = Inl err \<and> IsNotFound err" for err
  proof (intro exI[of _ "newFile e h req"] conjI)
    show "take 2 (calls (handlePut e h req os cs))
        = [CallGet (name h), CallCreate (newFile e h req)]"
      using that by (simp add: handlePut_valid[OF v] storeContent_sel split: sum.splits)
    show "upserted (calls (handlePut e h req os cs)) = [newFile e h req]"
      using that by (simp add: handlePut_valid[OF v] storeContent_sel split: sum.splits)
    show "Name (ObjectMeta (newFile e h req)) = name h"
      by (simp add: newFile_def)
    show "Uploaded (Status (newFile e h req))"
      by (simp add: newFile_def)
    show "Size (Spec (newFile e h req)) = int (length (uploadedBytes req))"
      by (simp add: newFile_def)
    show "\<forall>os'. store_Create e os (newFile e h req) = Inr os' \<longrightarrow>
                objects (handlePut e h req os cs) = os'
                \<and> (\<exists>obj. response (handlePut e h req os cs)
                      = ResponderObject StatusCreated obj)"
      using that by (simp add: handlePut_valid[OF v] storeContent_sel)
  qed
  have updated: "\<exists>f. take 2 (calls (handlePut e h req os cs))
             = [CallGet (name h), CallUpdate (name h) f]
           \<and> upserted (calls (handlePut e h req os cs)) = [f]
           \<and> Name (ObjectMeta f) = Name (ObjectMeta fl)
           \<and> URL (Spec f) = buildContentURL e h req
           \<and> Size (Spec f) = int (length (uploadedBytes req))
           \<and> ContentType (Spec f) = normalizedContentType e req
           \<and> Uploaded (Status f)
           \<and> Error (Status f) = []
           \<and> (\<forall>os'. store_Update e os (name h) f = Inr os' \<longrightarrow>
                objects (handlePut e h req os cs) = os'
                \<and> (\<exists>obj. response (handlePut e h req os cs)
                      = ResponderObject StatusCreated obj))"
    if "store_Get e os (name h) = Inr (FileObject fl)" for fl
  proof (intro exI[of _ "updatedFile e h req fl"] conjI)
    show "take 2 (calls (handlePut e h req os cs))
        = [CallGet (name h), CallUpdate (name h) (updatedFile e h req fl)]"
      using that by (simp add: handlePut_valid[OF v] storeContent_sel split: sum.splits)
    show "upserted (calls (handlePut e h req os cs)) = [updatedFile e h req fl]"
      using that by (simp add: handlePut_valid[OF v] storeContent_sel split: sum.splits)
    show "\<forall>os'. store_Update e os (name h) (updatedFile e h req fl) = Inr os' \<longrightarrow>
                objects (handlePut e h req os cs) = os'
                \<and> (\<exists>obj. response (handlePut e h req os cs)
                      = ResponderObject StatusCreated obj)"
      using that by (simp add: handlePut_valid[OF v] storeContent_sel)
  qed (simp_all add: updatedFile_def)
  have aborted: "response (handlePut e h req os cs) = ResponderError (Propagated err)
        \<and> calls (handlePut e h req os cs) = [CallGet (name h)]
        \<and> objects (handlePut e h req os cs) = os
        \<and> contents (handlePut e h req os cs) = cs"
    if "store_Get e os (name h) = Inl err \<and> \<not> IsNotFound err" for err
    using that by (simp add: handlePut_valid[OF v])
  from created updated aborted
  show "(\<forall>err. store_Get e os (name h) = Inl err \<and> IsNotFound err \<longrightarrow>
        (\<exists>f. take 2 (calls (handlePut e h req os cs)) = [CallGet (name h), CallCreate f]
           \<and> upserted (calls (handlePut e h req os cs)) = [f]
           \<and> Name (ObjectMeta f) = name h
           \<and> Uploaded (Status f)
           \<and> Size (Spec f) = int (length (uploadedBytes req))
           \<and> (\<forall>os'. store_Create e os f = Inr os' \<longrightarrow>
                objects (handlePut e h req os cs) = os'
                \<and> (\<exists>obj. response (handlePut e h req os cs)
                      = ResponderObject StatusCreated obj))))
     \<and> (\<forall>fl. store_Get e os (name h) = Inr (FileObject fl) \<longrightarrow>
        (\<exists>f. take 2 (calls (handlePut e h req os cs)) = [CallGet (name h), CallUpdate (name h) f]
           \<and> upserted (calls (handlePut e h req os cs)) = [f]
           \<and> Name (ObjectMeta f) = Name (ObjectMeta fl)
           \<and> URL (Spec f) = buildContentURL e h req
           \<and> Size (Spec f) = int (length (uploadedBytes req))
           \<and> ContentType (Spec f) = normalizedContentType e req
           \<and> Uploaded (Status f)
           \<and> Error (Status f) = []
           \<and> (\<forall>os'. store_Update e os (name h) f = Inr os' \<longrightarrow>
                objects (handlePut e h req os cs) = os'
                \<and> (\<exists>obj. response (handlePut e h req os cs)
                      = ResponderObject StatusCreated obj))))
     \<and> (\<forall>err. store_Get e os (name h) = Inl err \<and> \<not> IsNotFound err \<longrightarrow>
        response (handlePut e h req os cs) = ResponderError (Propagated err)
        \<and> calls (handlePut e h req os cs) = [CallGet (name h)]
        \<and> objects (handlePut e h req os cs) = os
        \<and> contents (handlePut e h req os cs) = cs)"
    by blast
qed

lemma passes_downEnv: "passesValidation downEnv req = passesValidation goEnv req"
  by (simp add: passesValidation_def parsedMediaType_def parseError_def downEnv_def)

lemma downEnv_Get:
  "store_Get downEnv os n = Inl \<lparr>notFound = False, msg = ''etcd unavailable''\<rparr>"
  by (simp add: downEnv_def)

lemma updated_oldReport:
  "updatedFile goEnv reportHandler (putRequest ''text/plain'' [1, 2, 3]) oldReport
     = oldReport\<lparr>Spec := \<lparr>URL = ''https://localhost:8443/apis/cdn.k8s.toms.place/v1alpha1/namespaces/toms-place/files/report/content'',
                          Size = 3, ContentType = ''text/plain'',
                          ResourceLocation = ''s3://bucket/report''\<rparr>,
                 Status := \<lparr>Uploaded = True, Error = []\<rparr>\<rparr>"
  by (simp add: updatedFile_def url_report normalized_text_plain putRequest_sel oldReport_def)

theorem put_upsert_witness:
  "passesValidation goEnv (putRequest ''text/plain'' [1, 2, 3])
   \<and> store_Get goEnv Map.empty (name reportHandler)
       = Inl \<lparr>notFound = True, msg = ''files report not found''\<rparr>
   \<and> map (\<lambda>f. (Name (ObjectMeta f), Size (Spec f), Uploaded (Status f)))
       (upserted (calls (handlePut goEnv reportHandler (putRequest ''text/plain'' [1, 2, 3])
          Map.empty Map.empty)))
       = [(''report'', 3, True)]
   \<and> store_Get goEnv [''report'' \<mapsto> oldReport] (name reportHandler)
       = Inr (FileObject oldReport)
   \<and> upserted (calls (handlePut goEnv reportHandler (putRequest ''text/plain'' [1, 2, 3])
          [''report'' \<mapsto> oldReport] Map.empty))
       = [oldReport\<lparr>Spec := \<lparr>URL = ''https://localhost:8443/apis/cdn.k8s.toms.place/v1alpha1/namespaces/toms-place/files/report/content'',
                            Size = 3, ContentType = ''text/plain'',
                            ResourceLocation = ''s3://bucket/report''\<rparr>,
                   Status := \<lparr>Uploaded = True, Error = []\<rparr>\<rparr>]
   \<and> passesValidation downEnv (putRequest ''text/plain'' [1, 2, 3])
   \<and> handlePut downEnv reportHandler (putRequest ''text/plain'' [1, 2, 3]) Map.empty Map.empty
       = \<lparr>response = ResponderError
            (Propagated \<lparr>notFound = False, msg = ''etcd unavailable''\<rparr>),
          objects = Map.empty, contents = Map.empty, calls = [CallGet ''report'']\<rparr>"
proof -
  have g1: "store_Get goEnv Map.empty (name reportHandler)
       = Inl \<lparr>notFound = True, msg = ''files report not found''\<rparr>"
    by (simp add: goEnv_sel mem_defs reportHandler_sel)
  have r1: "map (\<lambda>f. (Name (ObjectMeta f), Size (Spec f), Uploaded (Status f)))
       (upserted (calls (handlePut goEnv reportHandler (putRequest ''text/plain'' [1, 2, 3])
          Map.empty Map.empty)))
       = [(''report'', 3, True)]"
    by (simp add: run_first_put storeContent_sel newFile_def reportHandler_sel putRequest_sel)
  have g2: "store_Get goEnv [''report'' \<mapsto> oldReport] (name reportHandler)
       = Inr (FileObject oldReport)"
    by (simp add: goEnv_sel mem_defs reportHandler_sel)
  have r2: "upserted (calls (handlePut goEnv reportHandler (putRequest ''text/plain'' [1, 2, 3])
          [''report'' \<mapsto> oldReport] Map.empty))
       = [updatedFile goEnv reportHandler (putRequest ''text/plain'' [1, 2, 3]) oldReport]"
    by (simp add: go_put_existing[OF passes_text_plain, of "[''report'' \<mapsto> oldReport]"
          reportHandler oldReport] reportHandler_sel storeContent_sel)
  have r3: "handlePut downEnv reportHandler (putRequest ''text/plain'' [1, 2, 3])
        Map.empty Map.empty
       = \<lparr>response = ResponderError
            (Propagated \<lparr>notFound = False, msg = ''etcd unavailable''\<rparr>),
          objects = Map.empty, contents = Map.empty, calls = [CallGet ''report'']\<rparr>"
    by (simp add: handlePut_valid passes_downEnv passes_text_plain downEnv_Get IsNotFound_def
        reportHandler_sel)
  show ?thesis
    using put_upsert[of goEnv "putRequest ''text/plain'' [1, 2, 3]" Map.empty reportHandler
        Map.empty] passes_text_plain[of "[1, 2, 3]"] g1 r1 g2 r2 r3
    by (simp add: passes_downEnv updated_oldReport)
qed

text \<open>
  C10: a PUT on an existing resource submits, as the update, the File it fetched with
  \<open>spec.url\<close>, \<open>spec.size\<close>, \<open>spec.contentType\<close>, \<open>status.uploaded\<close> and
  \<open>status.error\<close> set and every other field as fetched: the type and object metadata
  (name, namespace, labels, annotations and the rest) and \<open>spec.resourceLocation\<close>.
\<close>

theorem update_frame:
  "passesValidation e req \<and> store_Get e os (name h) = Inr (FileObject fl) \<longrightarrow>
     (\<exists>f. take 2 (calls (handlePut e h req os cs)) = [CallGet (name h), CallUpdate (name h) f]
        \<and> upserted (calls (handlePut e h req os cs)) = [f]
        \<and> f = fl\<lparr>Spec := (Spec fl)\<lparr>URL := buildContentURL e h req,
                                    Size := int (length (uploadedBytes req)),
                                    ContentType := normalizedContentType e req\<rparr>,
                  Status := (Status fl)\<lparr>Uploaded := True, Error := []\<rparr>\<rparr>
        \<and> TypeMeta f = TypeMeta fl
        \<and> ObjectMeta f = ObjectMeta fl
        \<and> ResourceLocation (Spec f) = ResourceLocation (Spec fl))"
proof
  assume a: "passesValidation e req \<and> store_Get e os (name h) = Inr (FileObject fl)"
  then have v: "passesValidation e req" and g: "store_Get e os (name h) = Inr (FileObject fl)"
    by simp_all
  show "\<exists>f. take 2 (calls (handlePut e h req os cs)) = [CallGet (name h), CallUpdate (name h) f]
        \<and> upserted (calls (handlePut e h req os cs)) = [f]
        \<and> f = fl\<lparr>Spec := (Spec fl)\<lparr>URL := buildContentURL e h req,
                                    Size := int (length (uploadedBytes req)),
                                    ContentType := normalizedContentType e req\<rparr>,
                  Status := (Status fl)\<lparr>Uploaded := True, Error := []\<rparr>\<rparr>
        \<and> TypeMeta f = TypeMeta fl
        \<and> ObjectMeta f = ObjectMeta fl
        \<and> ResourceLocation (Spec f) = ResourceLocation (Spec fl)"
  proof (intro exI[of _ "updatedFile e h req fl"] conjI)
    show "take 2 (calls (handlePut e h req os cs))
        = [CallGet (name h), CallUpdate (name h) (updatedFile e h req fl)]"
      using g by (simp add: handlePut_valid[OF v] storeContent_sel split: sum.splits)
    show "upserted (calls (handlePut e h req os cs)) = [updatedFile e h req fl]"
      using g by (simp add: handlePut_valid[OF v] storeContent_sel split: sum.splits)
  qed (simp_all add: updatedFile_def)
qed

theorem update_frame_witness:
  "passesValidation goEnv (putRequest ''text/plain'' [1, 2, 3])
   \<and> store_Get goEnv [''report'' \<mapsto> oldReport] (name reportHandler)
       = Inr (FileObject oldReport)
   \<and> calls (handlePut goEnv reportHandler (putRequest ''text/plain'' [1, 2, 3])
          [''report'' \<mapsto> oldReport] Map.empty)
       = [CallGet ''report'',
          CallUpdate ''report''
            (oldReport\<lparr>Spec := \<lparr>URL = ''https://localhost:8443/apis/cdn.k8s.toms.place/v1alpha1/namespaces/toms-place/files/report/content'',
                                Size = 3, ContentType = ''text/plain'',
                                ResourceLocation = ''s3://bucket/report''\<rparr>,
                       Status := \<lparr>Uploaded = True, Error = []\<rparr>\<rparr>),
          PutEntry ''report''
            \<lparr>data = [1, 2, 3], status = uploadStatus reportHandler 3 ''text/plain''\<rparr>]"
proof -
  have g: "store_Get goEnv [''report'' \<mapsto> oldReport] (name reportHandler)
       = Inr (FileObject oldReport)"
    by (simp add: goEnv_sel mem_defs reportHandler_sel)
  have r: "calls (handlePut goEnv reportHandler (putRequest ''text/plain'' [1, 2, 3])
          [''report'' \<mapsto> oldReport] Map.empty)
       = [CallGet ''report'',
          CallUpdate ''report''
            (updatedFile goEnv reportHandler (putRequest ''text/plain'' [1, 2, 3]) oldReport),
          PutEntry ''report''
            \<lparr>data = [1, 2, 3], status = uploadStatus reportHandler 3 ''text/plain''\<rparr>]"
    by (simp add: go_put_existing[OF passes_text_plain, of "[''report'' \<mapsto> oldReport]"
          reportHandler oldReport] reportHandler_sel storeContent_sel putRequest_sel
        normalized_text_plain)
  show ?thesis
    using update_frame[of goEnv "putRequest ''text/plain'' [1, 2, 3]"
        "[''report'' \<mapsto> oldReport]" reportHandler oldReport Map.empty]
      passes_text_plain[of "[1, 2, 3]"] g r
    by (simp add: updated_oldReport)
qed

section \<open>A PUT followed by a GET\<close>

lemma ServeHTTP_method:
  "Method req = ''PUT'' \<Longrightarrow> ServeHTTP e h req os cs = handlePut e h req os cs"
  "Method req = ''GET'' \<Longrightarrow> ServeHTTP e h req os cs = handleGet e h req False os cs"
  "Method req = ''HEAD'' \<Longrightarrow> ServeHTTP e h req os cs = handleGet e h req True os cs"
  by (simp_all add: ServeHTTP_def)

lemma Sprintf_d_length: "readDecimal (Sprintf_d (int n)) = n"
  by (simp add: Sprintf_d_def readDecimal_decimal)

text \<open>
  C2: a PUT of \<open>bytes\<close> under a name that succeeds, followed at once by a GET on the
  same name, returns exactly \<open>bytes\<close> as the body (status 200), with the
  \<open>Content-Length\<close> header the decimal numeral of the byte count and the \<open>Content-Type\<close>
  header the normalized content type, which is the content type the PUT stored in the
  resource.  The GET takes the content type from the object store, so the object store
  is one that reads back what was written to it.
\<close>

theorem put_then_get:
  "readsBack e \<and> Method req = ''PUT'' \<and> Method req' = ''GET''
   \<and> response (ServeHTTP e h req os cs) = ResponderObject code obj \<longrightarrow>
     (\<exists>hdrs. response (ServeHTTP e h req' (objects (ServeHTTP e h req os cs))
                  (contents (ServeHTTP e h req os cs)))
               = Written hdrs StatusOK (uploadedBytes req)
        \<and> hdrs ''Content-Length'' = Some (Sprintf_d (int (length (uploadedBytes req))))
        \<and> readDecimal (Sprintf_d (int (length (uploadedBytes req))))
            = length (uploadedBytes req)
        \<and> hdrs ''Content-Type'' = Some (normalizedContentType e req)
        \<and> (\<exists>f. upserted (calls (ServeHTTP e h req os cs)) = [f]
              \<and> ContentType (Spec f) = normalizedContentType e req))"
proof
  assume a: "readsBack e \<and> Method req = ''PUT'' \<and> Method req' = ''GET''
   \<and> response (ServeHTTP e h req os cs) = ResponderObject code obj"
  then have rb: "readsBack e" and put: "ServeHTTP e h req os cs = handlePut e h req os cs"
    and get: "\<And>os cs. ServeHTTP e h req' os cs = handleGet e h req' False os cs"
    by (simp_all add: ServeHTTP_method)
  from a put have ok: "response (handlePut e h req os cs) = ResponderObject code obj"
    by simp
  from handlePut_success[OF ok] obtain u os' where
    v: "passesValidation e req" and up: "applyUpsert e os u = Some (Inr os')" and
    u: "u = CallCreate (newFile e h req)
        \<or> (\<exists>fl. store_Get e os (name h) = Inr (FileObject fl)
              \<and> u = CallUpdate (name h) (updatedFile e h req fl))" and
    eq: "handlePut e h req os cs =
            storeContent h (uploadedBytes req) (int (length (uploadedBytes req)))
              (normalizedContentType e req) os' cs [CallGet (name h), u]"
    by blast
  from u up rb obtain f g where
    f: "u = CallCreate f \<or> u = CallUpdate (name h) f"
       "ContentType (Spec f) = normalizedContentType e req" and
    g: "store_Get e os' (name h) = Inr (FileObject g)"
       "ContentType (Spec g) = ContentType (Spec f)"
  proof (elim disjE exE conjE)
    assume c: "u = CallCreate (newFile e h req)"
    with up have "store_Create e os (newFile e h req) = Inr os'" by simp
    with rb obtain g where "store_Get e os' (Name (ObjectMeta (newFile e h req)))
        = Inr (FileObject g)"
      "ContentType (Spec g) = ContentType (Spec (newFile e h req))"
      unfolding readsBack_def by blast
    with c that[of "newFile e h req" g] show ?thesis
      by (simp add: newFile_def)
  next
    fix fl
    assume c: "u = CallUpdate (name h) (updatedFile e h req fl)"
    with up have "store_Update e os (name h) (updatedFile e h req fl) = Inr os'" by simp
    with rb obtain g where "store_Get e os' (name h) = Inr (FileObject g)"
      "ContentType (Spec g) = ContentType (Spec (updatedFile e h req fl))"
      unfolding readsBack_def by blast
    with c that[of "updatedFile e h req fl" g] show ?thesis
      by (simp add: updatedFile_def)
  qed
  have ne: "ContentType (Spec g) \<noteq> []"
    using g(2) f(2) normalized_nonempty[OF v] by simp
  define hdrs where "hdrs = [''Content-Type'' \<mapsto> normalizedContentType e req,
      ''Content-Length'' \<mapsto> Sprintf_d (int (length (uploadedBytes req))),
      ''Content-Disposition'' \<mapsto> ''attachment; filename='' @ Quote e (name h)]"
  have "response (handleGet e h req' False os'
          (cs(name h \<mapsto> \<lparr>data = uploadedBytes req,
             status = uploadStatus h (int (length (uploadedBytes req)))
               (normalizedContentType e req)\<rparr>)))
      = Written hdrs StatusOK (uploadedBytes req)"
    using g ne f(2) by (simp add: handleGet_def Let_def hdrs_def)
  moreover have "hdrs ''Content-Length'' = Some (Sprintf_d (int (length (uploadedBytes req))))"
    "hdrs ''Content-Type'' = Some (normalizedContentType e req)"
    by (simp_all add: hdrs_def)
  moreover have "upserted (calls (handlePut e h req os cs)) = [f]"
    using f(1) by (auto simp: eq storeContent_sel)
  ultimately show "\<exists>hdrs. response (ServeHTTP e h req' (objects (ServeHTTP e h req os cs))
                  (contents (ServeHTTP e h req os cs)))
               = Written hdrs StatusOK (uploadedBytes req)
        \<and> hdrs ''Content-Length'' = Some (Sprintf_d (int (length (uploadedBytes req))))
        \<and> readDecimal (Sprintf_d (int (length (uploadedBytes req))))
            = length (uploadedBytes req)
        \<and> hdrs ''Content-Type'' = Some (normalizedContentType e req)
        \<and> (\<exists>f. upserted (calls (ServeHTTP e h req os cs)) = [f]
              \<and> ContentType (Spec f) = normalizedContentType e req)"
    using f(2) by (auto simp: put get eq storeContent_sel Sprintf_d_length)
qed

theorem put_then_get_witness:
  "readsBack goEnv
   \<and> Method (putRequest ''text/plain; charset=utf-8'' [104, 105, 33]) = ''PUT''
   \<and> Method getRequest = ''GET''
   \<and> response (ServeHTTP goEnv reportHandler
        (putRequest ''text/plain; charset=utf-8'' [104, 105, 33]) Map.empty Map.empty)
       = ResponderObject StatusCreated
           \<lparr>content_TypeMeta = zeroTypeMeta,
            content_Status = uploadStatus reportHandler 3 ''text/plain; charset=utf-8''\<rparr>
   \<and> response (ServeHTTP goEnv reportHandler getRequest
        (objects (ServeHTTP goEnv reportHandler
           (putRequest ''text/plain; charset=utf-8'' [104, 105, 33]) Map.empty Map.empty))
        (contents (ServeHTTP goEnv reportHandler
           (putRequest ''text/plain; charset=utf-8'' [104, 105, 33]) Map.empty Map.empty)))
       = Written [''Content-Type'' \<mapsto> ''text/plain; charset=utf-8'',
                  ''Content-Length'' \<mapsto> ''3'',
                  ''Content-Disposition'' \<mapsto> ''attachment; filename='' @ quotePlain ''report'']
           StatusOK [104, 105, 33]"
proof -
  have m: "Method (putRequest ''text/plain; charset=utf-8'' [104, 105, 33]) = ''PUT''
     \<and> Method getRequest = ''GET''"
    by (simp add: putRequest_sel getRequest_def)
  have p: "ServeHTTP goEnv reportHandler
        (putRequest ''text/plain; charset=utf-8'' [104, 105, 33]) Map.empty Map.empty
      = storeContent reportHandler [104, 105, 33] 3 ''text/plain; charset=utf-8''
          [''report'' \<mapsto> newFile goEnv reportHandler
             (putRequest ''text/plain; charset=utf-8'' [104, 105, 33])]
          Map.empty
          [CallGet ''report'',
           CallCreate (newFile goEnv reportHandler
             (putRequest ''text/plain; charset=utf-8'' [104, 105, 33]))]"
    by (simp add: ServeHTTP_method putRequest_sel go_put_new[OF passes_text_plain_charset]
        reportHandler_sel normalized_text_plain_charset)
  have g: "response (ServeHTTP goEnv reportHandler getRequest
        [''report'' \<mapsto> newFile goEnv reportHandler
             (putRequest ''text/plain; charset=utf-8'' [104, 105, 33])]
        [''report'' \<mapsto> \<lparr>data = [104, 105, 33],
           status = uploadStatus reportHandler 3 ''text/plain; charset=utf-8''\<rparr>])
       = Written [''Content-Type'' \<mapsto> ''text/plain; charset=utf-8'',
                  ''Content-Length'' \<mapsto> ''3'',
                  ''Content-Disposition'' \<mapsto> ''attachment; filename='' @ quotePlain ''report'']
           StatusOK [104, 105, 33]"
    by (simp add: ServeHTTP_def getRequest_def handleGet_def goEnv_sel mem_defs Let_def
        reportHandler_sel newFile_def normalized_text_plain_charset Sprintf_d_def digit_def decimal.simps)
  show ?thesis
    using put_then_get[of goEnv "putRequest ''text/plain; charset=utf-8'' [104, 105, 33]"
        getRequest reportHandler Map.empty Map.empty] readsBack_goEnv m g
    by (simp add: p storeContent_sel reportHandler_sel)
qed

section \<open>The entries of the content store\<close>

lemma successEntry_upload:
  "successEntry (name h) \<lparr>data = bs, status = uploadStatus h (int (length bs)) ct\<rparr>"
proof -
  define start where "start = ''content uploaded successfully for file '' @ name h @ '' (''
      @ Sprintf_d (int (length bs)) @ '' bytes, ''"
  have "status_Message (uploadStatus h (int (length bs)) ct) = start @ (ct @ '')'')"
    by (simp add: uploadStatus_def start_def)
  moreover have "take (length start) (start @ (ct @ '')'')) = start"
    by simp
  ultimately have "take (length start) (status_Message (uploadStatus h (int (length bs)) ct))
      = start"
    by simp
  then show ?thesis
    unfolding successEntry_def Let_def start_def
    by (simp add: uploadStatus_def)
qed

lemma ServeHTTP_contents:
  "contents (ServeHTTP e h req os cs) = cs
   \<or> (Method req = ''PUT'' \<and> passesValidation e req
       \<and> (\<exists>u os'. isUpsert u \<and> applyUpsert e os u = Some (Inr os')
             \<and> u \<in> set (calls (ServeHTTP e h req os cs))
             \<and> objects (ServeHTTP e h req os cs) = os')
       \<and> response (ServeHTTP e h req os cs)
           = ResponderObject StatusCreated
               \<lparr>content_TypeMeta = zeroTypeMeta,
                content_Status = uploadStatus h (int (length (uploadedBytes req)))
                  (normalizedContentType e req)\<rparr>
       \<and> contents (ServeHTTP e h req os cs)
           = cs(name h \<mapsto> \<lparr>data = uploadedBytes req,
                status = uploadStatus h (int (length (uploadedBytes req)))
                  (normalizedContentType e req)\<rparr>))"
proof (cases "Method req = ''PUT''")
  case False
  then show ?thesis by (simp add: ServeHTTP_def handleGet_frame)
next
  case True
  show ?thesis
  proof (cases "\<exists>code obj. response (handlePut e h req os cs) = ResponderObject code obj")
    case False
    with handlePut_contents[of e h req os cs] True show ?thesis
      by (simp add: ServeHTTP_method)
  next
    case True
    then obtain code obj where
      "response (handlePut e h req os cs) = ResponderObject code obj" by blast
    from handlePut_success[OF this] obtain u os' where
      "passesValidation e req" "isUpsert u" "applyUpsert e os u = Some (Inr os')"
      "handlePut e h req os cs =
            storeContent h (uploadedBytes req) (int (length (uploadedBytes req)))
              (normalizedContentType e req) os' cs [CallGet (name h), u]"
      by blast
    with \<open>Method req = ''PUT''\<close> show ?thesis
      by (auto simp: ServeHTTP_method storeContent_sel)
  qed
qed

lemma ServeHTTP_allSuccess:
  assumes "allSuccess cs"
  shows "allSuccess (contents (ServeHTTP e h req os cs))"
proof -
  from ServeHTTP_contents[of e h req os cs]
  consider "contents (ServeHTTP e h req os cs) = cs"
    | "contents (ServeHTTP e h req os cs)
           = cs(name h \<mapsto> \<lparr>data = uploadedBytes req,
                status = uploadStatus h (int (length (uploadedBytes req)))
                  (normalizedContentType e req)\<rparr>)"
    by blast
  then show ?thesis
  proof cases
    case 1
    with assms show ?thesis by simp
  next
    case 2
    show ?thesis
      unfolding 2 allSuccess_def
    proof (intro allI impI)
      fix n entry
      assume l: "(cs(name h \<mapsto> \<lparr>data = uploadedBytes req,
                status = uploadStatus h (int (length (uploadedBytes req)))
                  (normalizedContentType e req)\<rparr>)) n = Some entry"
      show "successEntry n entry"
      proof (cases "n = name h")
        case True
        with l successEntry_upload[of h "uploadedBytes req" "normalizedContentType e req"]
        show ?thesis by auto
      next
        case False
        with l assms show ?thesis by (simp add: allSuccess_def)
      qed
    qed
  qed
qed

lemma serveAll_allSuccess:
  "allSuccess cs \<Longrightarrow> allSuccess (snd (serveAll e reqs os cs))"
proof (induction reqs arbitrary: os cs)
  case Nil
  then show ?case by simp
next
  case (Cons hr reqs)
  obtain h req where hr: "hr = (h, req)" by (cases hr)
  from Cons.prems have "allSuccess (contents (ServeHTTP e h req os cs))"
    by (rule ServeHTTP_allSuccess)
  then show ?case
    by (simp add: hr Let_def Cons.IH)
qed

text \<open>
  C9: every entry ever present in the content store carries a success descriptor
  (status Success, code 201, a message naming the resource).  The store starts empty,
  and whatever requests are served, every entry of it is such an entry.  A request
  changes the content store only if it is a PUT that passed validation, whose upsert
  the object store accepted and which is answered 201, and then only the entry under
  the handler's name; a request answered otherwise leaves every entry as it was.
\<close>

theorem content_store_entries:
  "allSuccess (snd (serveAll e reqs os Map.empty))
   \<and> (allSuccess cs \<longrightarrow> allSuccess (contents (ServeHTTP e h req os cs)))
   \<and> (contents (ServeHTTP e h req os cs) \<noteq> cs \<longrightarrow>
        Method req = ''PUT'' \<and> passesValidation e req
        \<and> (\<exists>u os'. isUpsert u \<and> applyUpsert e os u = Some (Inr os')
              \<and> u \<in> set (calls (ServeHTTP e h req os cs)))
        \<and> (\<exists>obj. response (ServeHTTP e h req os cs) = ResponderObject StatusCreated obj)
        \<and> (\<forall>n. n \<noteq> name h \<longrightarrow> contents (ServeHTTP e h req os cs) n = cs n))
   \<and> ((\<forall>obj. response (ServeHTTP e h req os cs) \<noteq> ResponderObject StatusCreated obj) \<longrightarrow>
        contents (ServeHTTP e h req os cs) = cs)"
proof (intro conjI)
  have "allSuccess Map.empty" by (simp add: allSuccess_def)
  then show "allSuccess (snd (serveAll e reqs os Map.empty))"
    by (rule serveAll_allSuccess)
next
  show "allSuccess cs \<longrightarrow> allSuccess (contents (ServeHTTP e h req os cs))"
    by (simp add: ServeHTTP_allSuccess)
next
  show "contents (ServeHTTP e h req os cs) \<noteq> cs \<longrightarrow>
        Method req = ''PUT'' \<and> passesValidation e req
        \<and> (\<exists>u os'. isUpsert u \<and> applyUpsert e os u = Some (Inr os')
              \<and> u \<in> set (calls (ServeHTTP e h req os cs)))
        \<and> (\<exists>obj. response (ServeHTTP e h req os cs) = ResponderObject StatusCreated obj)
        \<and> (\<forall>n. n \<noteq> name h \<longrightarrow> contents (ServeHTTP e h req os cs) n = cs n)"
    using ServeHTTP_contents[of e h req os cs] by auto
next
  show "(\<forall>obj. response (ServeHTTP e h req os cs) \<noteq> ResponderObject StatusCreated obj) \<longrightarrow>
        contents (ServeHTTP e h req os cs) = cs"
    using ServeHTTP_contents[of e h req os cs] by auto
qed

theorem content_store_entries_witness:
  "snd (serveAll goEnv
          [(reportHandler, putRequest ''text/plain'' [1, 2, 3]),
           (reportHandler, putRequest ''wibble/plain'' [9]),
           (reportHandler, getRequest)] Map.empty Map.empty)
     = [''report'' \<mapsto> \<lparr>data = [1, 2, 3], status = uploadStatus reportHandler 3 ''text/plain''\<rparr>]
   \<and> uploadStatus reportHandler 3 ''text/plain''
     = \<lparr>status_Status = ''Success'',
        status_Message = ''content uploaded successfully for file report (3 bytes, text/plain)'',
        status_Details = Some \<lparr>details_Name = ''report'', details_Kind = ''File''\<rparr>,
        status_Code = 201\<rparr>
   \<and> allSuccess
       [''report'' \<mapsto> \<lparr>data = [1, 2, 3], status = uploadStatus reportHandler 3 ''text/plain''\<rparr>]
   \<and> contents (ServeHTTP goEnv reportHandler (putRequest ''wibble/plain'' [9])
        [''report'' \<mapsto> oldReport]
        [''report'' \<mapsto> \<lparr>data = [1, 2, 3], status = uploadStatus reportHandler 3 ''text/plain''\<rparr>])
     = [''report'' \<mapsto> \<lparr>data = [1, 2, 3], status = uploadStatus reportHandler 3 ''text/plain''\<rparr>]
   \<and> response (ServeHTTP goEnv reportHandler (putRequest ''wibble/plain'' [9])
        [''report'' \<mapsto> oldReport]
        [''report'' \<mapsto> \<lparr>data = [1, 2, 3], status = uploadStatus reportHandler 3 ''text/plain''\<rparr>])
     = HttpError (''unsupported Content-Type: wibble/plain''
            @ '' (must be a valid MIME type like text/*, application/*, image/*, etc.)'')
            StatusBadRequest
   \<and> contents (ServeHTTP goEnv reportHandler (putRequest ''text/plain'' [1, 2, 3])
        Map.empty Map.empty) \<noteq> Map.empty
   \<and> Method (putRequest ''text/plain'' [1, 2, 3]) = ''PUT''
   \<and> passesValidation goEnv (putRequest ''text/plain'' [1, 2, 3])"
proof -
  have bad: "clientError goEnv (putRequest ''wibble/plain'' [9])"
    by (simp add: clientError_def putRequest_sel parsed_goEnv parse_wibble valid_defs)
  have run: "snd (serveAll goEnv
          [(reportHandler, putRequest ''text/plain'' [1, 2, 3]),
           (reportHandler, putRequest ''wibble/plain'' [9]),
           (reportHandler, getRequest)] Map.empty Map.empty)
     = [''report'' \<mapsto> \<lparr>data = [1, 2, 3], status = uploadStatus reportHandler 3 ''text/plain''\<rparr>]"
    by (simp add: ServeHTTP_method putRequest_sel getRequest_def run_first_put storeContent_sel
        handlePut_clientError[OF bad] handleGet_frame reportHandler_sel)
  have st: "uploadStatus reportHandler 3 ''text/plain''
     = \<lparr>status_Status = ''Success'',
        status_Message = ''content uploaded successfully for file report (3 bytes, text/plain)'',
        status_Details = Some \<lparr>details_Name = ''report'', details_Kind = ''File''\<rparr>,
        status_Code = 201\<rparr>"
    by (simp add: uploadStatus_def reportHandler_sel Sprintf_d_def digit_def decimal.simps)
  have one: "contents (ServeHTTP goEnv reportHandler (putRequest ''wibble/plain'' [9])
        [''report'' \<mapsto> oldReport]
        [''report'' \<mapsto> \<lparr>data = [1, 2, 3], status = uploadStatus reportHandler 3 ''text/plain''\<rparr>])
     = [''report'' \<mapsto> \<lparr>data = [1, 2, 3], status = uploadStatus reportHandler 3 ''text/plain''\<rparr>]"
    by (simp add: ServeHTTP_method putRequest_sel handlePut_clientError[OF bad])
  have resp: "response (ServeHTTP goEnv reportHandler (putRequest ''wibble/plain'' [9])
        [''report'' \<mapsto> oldReport]
        [''report'' \<mapsto> \<lparr>data = [1, 2, 3], status = uploadStatus reportHandler 3 ''text/plain''\<rparr>])
     = HttpError (''unsupported Content-Type: wibble/plain''
            @ '' (must be a valid MIME type like text/*, application/*, image/*, etc.)'')
            StatusBadRequest"
    by (simp add: ServeHTTP_method putRequest_sel handlePut_clientError[OF bad]
        clientErrorMessage_def parsed_goEnv parse_wibble)
  have chg: "contents (ServeHTTP goEnv reportHandler (putRequest ''text/plain'' [1, 2, 3])
        Map.empty Map.empty) ''report'' \<noteq> None"
    by (simp add: ServeHTTP_method putRequest_sel run_first_put storeContent_sel
        reportHandler_sel)
  then have chg': "contents (ServeHTTP goEnv reportHandler (putRequest ''text/plain'' [1, 2, 3])
        Map.empty Map.empty) \<noteq> Map.empty"
    by auto
  show ?thesis
    using content_store_entries[of goEnv
        "[(reportHandler, putRequest ''text/plain'' [1, 2, 3]),
          (reportHandler, putRequest ''wibble/plain'' [9]),
          (reportHandler, getRequest)]" Map.empty
        "[''report'' \<mapsto> \<lparr>data = [1, 2, 3], status = uploadStatus reportHandler 3 ''text/plain''\<rparr>]"
        reportHandler "putRequest ''wibble/plain'' [9]"] st one resp chg'
      passes_text_plain[of "[1, 2, 3]"]
    unfolding run
    by (simp add: putRequest_sel)
qed

end
